theory Spec2Isabelle
  imports Main "HOL-Library.AList"
begin

section \<open>Tables\<close>

text \<open>
  The program works on pandas data frames.  A frame is an ordered list of labelled
  columns over a row index; \<open>data.shape[0]\<close> is the length of the index, which a frame
  keeps even when it has no column.  The dtypes are the four that \<open>pd.read_csv\<close> infers
  with its default arguments (integers beyond the 64-bit signed range, which it
  loads as \<open>uint64\<close>, are outside the model).  A value is missing (\<open>NaN\<close>), infinite,
  an integer, a finite float (\<open>FloatVal m e\<close> is the number \<open>m * 2 ^ e\<close>), a boolean
  or a text.
\<close>

datatype dtype = Int64 | Float64 | Bool | Object

datatype cell = NA | PosInf | NegInf | IntVal int | FloatVal int int | BoolVal bool | TextVal string

record column =
  name :: string
  dtypes :: dtype
  vals :: "cell list"

record table =
  nrows :: nat
  cols :: "column list"

text \<open>
  The invariant of a frame the loader returns: labels identify columns
  (\<open>pd.read_csv\<close> renames repeated header names) and every column has one value per row.
\<close>

definition wf_table :: "table \<Rightarrow> bool" where
  "wf_table data \<longleftrightarrow>
     distinct (map name (cols data)) \<and> list_all (\<lambda>c. length (vals c) = nrows data) (cols data)"

section \<open>Exceptions\<close>

text \<open>
  Every raise of the program or of a library call it makes is a value.  The first group
  are the exceptions of Python and of the libraries on the paths of the program.
  \<open>InvalidConfigError\<close> and \<open>InsufficientDataError\<close> are the names of the
  specification's error taxonomy; the source defines neither class and no equation
  below produces them.
\<close>

datatype category = RuntimeWarning | FutureWarning | UserWarning | DeprecationWarning

type_synonym warning = "category \<times> string"

datatype error =
    ZeroDivisionError | ValueError | IndexError | TypeError | KeyError
  | FileNotFoundError | EmptyDataError | ParserError
  | WarningAsError warning
  | InvalidConfigError | InsufficientDataError

section \<open>Column classifier\<close>

text \<open>
  \<open>data[column]\<close> selects by label: a Series when one column carries the label, a
  DataFrame when several do, \<open>KeyError\<close> when none does.
\<close>

datatype selection = Series column | Frame "column list"

definition getitem :: "table \<Rightarrow> string \<Rightarrow> error + selection" where
  "getitem data label =
     (case filter (\<lambda>c. name c = label) (cols data) of
        [] \<Rightarrow> Inl KeyError
      | [c] \<Rightarrow> Inr (Series c)
      | c # d # cs \<Rightarrow> Inr (Frame (c # d # cs)))"

text \<open>
  The condition \<open>data[column].dtypes == 'int64' or data[column].dtypes == 'float64'\<close>.
  On a DataFrame \<open>.dtypes\<close> is a Series of dtypes, the comparison is a Series of
  booleans, and \<open>or\<close> asks for its truth value, which pandas refuses with \<open>ValueError\<close>.
\<close>

definition is_numeric :: "table \<Rightarrow> string \<Rightarrow> error + bool" where
  "is_numeric data column =
     (case getitem data column of
        Inl e \<Rightarrow> Inl e
      | Inr (Series c) \<Rightarrow> Inr (dtypes c = Int64 \<or> dtypes c = Float64)
      | Inr (Frame cs) \<Rightarrow> Inl ValueError)"

text \<open>The condition \<open>data[column].dtypes != 'int64' and data[column].dtypes != 'float64'\<close>.\<close>

definition is_non_numeric :: "table \<Rightarrow> string \<Rightarrow> error + bool" where
  "is_non_numeric data column =
     (case getitem data column of
        Inl e \<Rightarrow> Inl e
      | Inr (Series c) \<Rightarrow> Inr (dtypes c \<noteq> Int64 \<and> dtypes c \<noteq> Float64)
      | Inr (Frame cs) \<Rightarrow> Inl ValueError)"

text \<open>A list comprehension \<open>[x for x in xs if p(x)]\<close> whose condition may raise.\<close>

fun comprehension :: "('a \<Rightarrow> error + bool) \<Rightarrow> 'a list \<Rightarrow> error + 'a list" where
  "comprehension p [] = Inr []"
| "comprehension p (x # xs) =
     (case p x of
        Inl e \<Rightarrow> Inl e
      | Inr b \<Rightarrow>
          (case comprehension p xs of
             Inl e \<Rightarrow> Inl e
           | Inr ys \<Rightarrow> Inr (if b then x # ys else ys)))"

definition numeric_columns :: "table \<Rightarrow> error + string list" where
  "numeric_columns data = comprehension (is_numeric data) (map name (cols data))"

definition non_numeric_columns :: "table \<Rightarrow> error + string list" where
  "non_numeric_columns data = comprehension (is_non_numeric data) (map name (cols data))"

text \<open>
  \<open>pd.DataFrame(data, columns=labels)\<close> reindexes the columns of \<open>data\<close> to \<open>labels\<close>
  and keeps the row index: a label of \<open>data\<close> brings its column, a label \<open>data\<close> lacks
  an all-missing column, and pandas refuses to reindex repeated labels.
\<close>

definition DataFrame :: "table \<Rightarrow> string list \<Rightarrow> error + table" where
  "DataFrame data labels =
     (if \<not> distinct (map name (cols data)) \<and> labels \<noteq> map name (cols data) then Inl ValueError
      else Inr \<lparr>nrows = nrows data,
                cols = map (\<lambda>l. case find (\<lambda>c. name c = l) (cols data) of
                                    Some c \<Rightarrow> c
                                  | None \<Rightarrow> \<lparr>name = l, dtypes = Float64,
                                              vals = replicate (nrows data) NA\<rparr>) labels\<rparr>)"

text \<open>
  \<open>NumericOutput(data = dataframe).data\<close> validates that the value is a DataFrame
  (\<open>arbitrary_types_allowed\<close>) and hands it back.
\<close>

definition numeric_data :: "table \<Rightarrow> error + table" where
  "numeric_data data =
     (case numeric_columns data of
        Inl e \<Rightarrow> Inl e
      | Inr labels \<Rightarrow> DataFrame data labels)"

definition non_numeric_data :: "table \<Rightarrow> error + table" where
  "non_numeric_data data =
     (case non_numeric_columns data of
        Inl e \<Rightarrow> Inl e
      | Inr labels \<Rightarrow> DataFrame data labels)"

abbreviation numeric :: "column \<Rightarrow> bool" where
  "numeric c \<equiv> dtypes c = Int64 \<or> dtypes c = Float64"

section \<open>Interpreter state\<close>

text \<open>
  What the program changes outside its return values: the warning filters of the
  \<open>warnings\<close> module, the warnings shown on standard error, the lines printed, the
  pandas option \<open>mode.use_inf_as_na\<close>, and the figures of pyplot (the last one is
  the current figure).
\<close>

datatype action = Error | Ignore | Always | Default | Module | Once

type_synonym warning_filter = "action \<times> category option"

text \<open>
  A correlation coefficient is a floating-point number computed by pandas: \<open>1.0\<close>,
  \<open>NaN\<close>, or a value that the model keeps symbolic, \<open>Pearson xs ys\<close> standing for
  the coefficient pandas computes for the two value lists.
\<close>

datatype coef = One | NaN | Pearson "cell list" "cell list"

record corr_matrix =
  corr_labels :: "string list"
  corr_cells :: "coef list list"

datatype chart =
  BoxChart selection | HistChart selection | HeatChart corr_matrix | ColorBar corr_matrix

record axes =
  charts :: "chart list"
  title :: string
  axis_on :: bool

text \<open>
  A figure holds the axes of its subplot grid and, beside them, the axes that
  seaborn adds for the colour bar of a heatmap.
\<close>

record figure =
  grid :: "axes list list"
  colorbars :: "axes list"
  suptitle :: "string option"
  tight :: bool
  shown :: bool

record pystate =
  filters :: "warning_filter list"
  stderr :: "warning list"
  stdout :: "string list"
  use_inf_as_na :: bool
  figures :: "figure list"

text \<open>A computation reads and changes the state and returns a value or raises.\<close>

type_synonym 'a py = "pystate \<Rightarrow> (error + 'a) \<times> pystate"

definition return_py :: "'a \<Rightarrow> 'a py" where
  "return_py x s = (Inr x, s)"

definition raise_py :: "error \<Rightarrow> 'a py" where
  "raise_py e s = (Inl e, s)"

definition lift_py :: "error + 'a \<Rightarrow> 'a py" where
  "lift_py r s = (r, s)"

definition modify_py :: "(pystate \<Rightarrow> pystate) \<Rightarrow> unit py" where
  "modify_py f s = (Inr (), f s)"

definition get_py :: "(pystate \<Rightarrow> 'a) \<Rightarrow> 'a py" where
  "get_py f s = (Inr (f s), s)"

definition bind_py :: "'a py \<Rightarrow> ('a \<Rightarrow> 'b py) \<Rightarrow> 'b py" where
  "bind_py m f s = (case m s of (Inl e, s') \<Rightarrow> (Inl e, s') | (Inr x, s') \<Rightarrow> f x s')"

section \<open>Warnings\<close>

text \<open>
  \<open>warnings.warn\<close> takes the action of the first filter that matches the warning's
  category (a filter on the base class \<open>Warning\<close>, written \<open>None\<close>, matches all), and the
  default action when none matches.  The action \<open>error\<close> raises the warning as an
  exception, \<open>ignore\<close> drops it, and the others show it on standard error (the
  registry that shows a repeated warning once only is not modelled: a shown warning
  is always appended).
\<close>

fun action_for :: "warning_filter list \<Rightarrow> category \<Rightarrow> action" where
  "action_for [] c = Default"
| "action_for ((a, None) # fs) c = a"
| "action_for ((a, Some c') # fs) c = (if c' = c then a else action_for fs c)"

definition warn :: "warning \<Rightarrow> unit py" where
  "warn w s =
     (case action_for (filters s) (fst w) of
        Error \<Rightarrow> (Inl (WarningAsError w), s)
      | Ignore \<Rightarrow> (Inr (), s)
      | Always \<Rightarrow> (Inr (), s\<lparr>stderr := stderr s @ [w]\<rparr>)
      | Default \<Rightarrow> (Inr (), s\<lparr>stderr := stderr s @ [w]\<rparr>)
      | Module \<Rightarrow> (Inr (), s\<lparr>stderr := stderr s @ [w]\<rparr>)
      | Once \<Rightarrow> (Inr (), s\<lparr>stderr := stderr s @ [w]\<rparr>))"

fun warn_all :: "warning list \<Rightarrow> unit py" where
  "warn_all [] = return_py ()"
| "warn_all (w # ws) = bind_py (warn w) (\<lambda>_. warn_all ws)"

text \<open>\<open>warnings.simplefilter(action)\<close> puts a filter for every category in front.\<close>

definition simplefilter :: "action \<Rightarrow> unit py" where
  "simplefilter a = modify_py (\<lambda>s. s\<lparr>filters := (a, None) # filters s\<rparr>)"

text \<open>
  The calls into pandas, matplotlib and seaborn.  Two things are the libraries'
  business and therefore parameters of the model.  \<open>warnings lib call\<close> lists the
  advisory warnings of a call, emitted before the call takes effect.
  \<open>refuses lib call inf_as_na\<close> is the exception, if any, with which a drawing or
  layout call rejects its input instead of taking effect, under the given setting of
  \<open>mode.use_inf_as_na\<close>: seaborn refuses to box-plot a float column without values
  (\<open>ValueError\<close>), and matplotlib refuses to lay out a figure with a title or
  label that it reads as malformed math text (\<open>ValueError\<close>).  The layout call
  carries the figure it works on.
\<close>

datatype lib_call =
    ReadCsv string | SetOption | Subplots int int | Boxplot selection | Histplot selection
  | SetTitle string | Suptitle string | AxisOff | TightLayout figure | Show
  | Corr table | NewFigure | Heatmap corr_matrix | Title string | Describe table

record library =
  warnings :: "lib_call \<Rightarrow> warning list"
  refuses :: "lib_call \<Rightarrow> bool \<Rightarrow> error option"

definition refusal :: "library \<Rightarrow> lib_call \<Rightarrow> unit py" where
  "refusal lib call s =
     (case refuses lib call (use_inf_as_na s) of
        None \<Rightarrow> (Inr (), s)
      | Some e \<Rightarrow> (Inl e, s))"

section \<open>Python arithmetic, indexing and strings\<close>

text \<open>
  \<open>a // b\<close> and \<open>a % b\<close> on unbounded integers: floor division, the remainder
  taking the sign of the divisor (as \<open>div\<close> and \<open>mod\<close> on \<open>int\<close> do), and
  \<open>ZeroDivisionError\<close> when \<open>b\<close> is zero.
\<close>

definition floordiv :: "int \<Rightarrow> int \<Rightarrow> error + int" where
  "floordiv a b = (if b = 0 then Inl ZeroDivisionError else Inr (a div b))"

definition pymod :: "int \<Rightarrow> int \<Rightarrow> error + int" where
  "pymod a b = (if b = 0 then Inl ZeroDivisionError else Inr (a mod b))"

text \<open>An index into an axis of length \<open>n\<close>; negative indices count from the end.\<close>

definition py_index :: "nat \<Rightarrow> int \<Rightarrow> error + nat" where
  "py_index n i = (if - int n \<le> i \<and> i < int n then Inr (nat (i mod int n)) else Inl IndexError)"

text \<open>
  \<open>str.capitalize()\<close>: the first character in upper case, the rest in lower case.
  Python strings are sequences of Unicode characters and \<open>capitalize\<close> follows the
  Unicode case mappings.  The strings of the model are byte strings, and
  \<open>capitalize\<close> below is Python's on ASCII text, which \<open>is_ascii\<close> recognises; what
  is proved about a label is proved for ASCII column names.
\<close>

definition is_ascii :: "string \<Rightarrow> bool" where
  "is_ascii s = list_all (\<lambda>c. (of_char c :: nat) < 128) s"

definition upper_char :: "char \<Rightarrow> char" where
  "upper_char c =
     (let n = of_char c :: nat in if 97 \<le> n \<and> n \<le> 122 then char_of (n - 32) else c)"

definition lower_char :: "char \<Rightarrow> char" where
  "lower_char c =
     (let n = of_char c :: nat in if 65 \<le> n \<and> n \<le> 90 then char_of (n + 32) else c)"

fun capitalize :: "string \<Rightarrow> string" where
  "capitalize [] = []"
| "capitalize (c # cs) = upper_char c # map lower_char cs"

section \<open>Chart renderer\<close>

text \<open>
  \<open>plt.subplots(nrows, ncols, figsize=(15, nrows * 5))\<close>.  pyplot first makes the
  figure, which refuses a negative size, and then the grid, which refuses a row or
  column count that is not positive; both refusals are \<open>ValueError\<close>.  With the
  default \<open>squeeze=True\<close> the axes come back as a single Axes object for a 1 x 1
  grid, as a one-dimensional array when there is one row or one column, and as a
  two-dimensional array otherwise.
\<close>

datatype axes_array = AxesObject | Axes1D nat | Axes2D nat nat

definition squeeze :: "nat \<Rightarrow> nat \<Rightarrow> axes_array" where
  "squeeze r c =
     (if r = 1 \<and> c = 1 then AxesObject
      else if r = 1 then Axes1D c
      else if c = 1 then Axes1D r
      else Axes2D r c)"

definition new_axes :: axes where
  "new_axes = \<lparr>charts = [], title = [], axis_on = True\<rparr>"

definition new_figure :: figure where
  "new_figure = \<lparr>grid = [], colorbars = [], suptitle = None, tight = False, shown = False\<rparr>"

definition add_figure :: "figure \<Rightarrow> pystate \<Rightarrow> pystate" where
  "add_figure fig s = s\<lparr>figures := figures s @ [fig]\<rparr>"

text \<open>The current figure; pyplot makes one when there is none.\<close>

definition current_figure :: "pystate \<Rightarrow> figure" where
  "current_figure s = (if figures s = [] then new_figure else last (figures s))"

definition on_current :: "(figure \<Rightarrow> figure) \<Rightarrow> pystate \<Rightarrow> pystate" where
  "on_current f s =
     (if figures s = [] then s\<lparr>figures := [f new_figure]\<rparr>
      else s\<lparr>figures := butlast (figures s) @ [f (last (figures s))]\<rparr>)"

definition plt_subplots :: "library \<Rightarrow> int \<Rightarrow> int \<Rightarrow> axes_array py" where
  "plt_subplots lib num_rows num_cols =
     bind_py (warn_all (warnings lib (Subplots num_rows num_cols))) (\<lambda>_.
     if num_rows * 5 < 0 then raise_py ValueError
     else bind_py (modify_py (add_figure new_figure)) (\<lambda>_.
     if num_rows \<le> 0 \<or> num_cols \<le> 0 then raise_py ValueError
     else bind_py (modify_py (on_current (\<lambda>fig.
            fig\<lparr>grid := replicate (nat num_rows) (replicate (nat num_cols) new_axes)\<rparr>))) (\<lambda>_.
     return_py (squeeze (nat num_rows) (nat num_cols)))))"

text \<open>
  \<open>axes[row, col]\<close>: an Axes object is not subscriptable (\<open>TypeError\<close>), a
  one-dimensional array has too many indices (\<open>IndexError\<close>), and a two-dimensional
  array gives the cell at the two indices.
\<close>

fun axes_getitem :: "axes_array \<Rightarrow> int \<Rightarrow> int \<Rightarrow> error + nat \<times> nat" where
  "axes_getitem AxesObject row col = Inl TypeError"
| "axes_getitem (Axes1D n) row col = Inl IndexError"
| "axes_getitem (Axes2D r c) row col =
     (case py_index r row of
        Inl e \<Rightarrow> Inl e
      | Inr i \<Rightarrow> (case py_index c col of Inl e \<Rightarrow> Inl e | Inr j \<Rightarrow> Inr (i, j)))"

definition update_axes :: "nat \<times> nat \<Rightarrow> (axes \<Rightarrow> axes) \<Rightarrow> figure \<Rightarrow> figure" where
  "update_axes p f fig =
     fig\<lparr>grid := (grid fig)[fst p := (grid fig ! fst p)[snd p := f (grid fig ! fst p ! snd p)]]\<rparr>"

text \<open>
  \<open>sns.boxplot(x=..., ax=...)\<close> and \<open>sns.histplot(x=..., ax=...)\<close> draw on the
  given axes, unless seaborn refuses the data.
\<close>

definition sns_boxplot :: "library \<Rightarrow> selection \<Rightarrow> nat \<times> nat \<Rightarrow> unit py" where
  "sns_boxplot lib x ax =
     bind_py (warn_all (warnings lib (Boxplot x))) (\<lambda>_.
     bind_py (refusal lib (Boxplot x)) (\<lambda>_.
     modify_py (on_current (update_axes ax (\<lambda>a. a\<lparr>charts := charts a @ [BoxChart x]\<rparr>)))))"

definition sns_histplot :: "library \<Rightarrow> selection \<Rightarrow> nat \<times> nat \<Rightarrow> unit py" where
  "sns_histplot lib x ax =
     bind_py (warn_all (warnings lib (Histplot x))) (\<lambda>_.
     bind_py (refusal lib (Histplot x)) (\<lambda>_.
     modify_py (on_current (update_axes ax (\<lambda>a. a\<lparr>charts := charts a @ [HistChart x]\<rparr>)))))"

definition set_title :: "library \<Rightarrow> nat \<times> nat \<Rightarrow> string \<Rightarrow> unit py" where
  "set_title lib ax label =
     bind_py (warn_all (warnings lib (SetTitle label))) (\<lambda>_.
     modify_py (on_current (update_axes ax (\<lambda>a. a\<lparr>title := label\<rparr>))))"

definition axis_off :: "library \<Rightarrow> nat \<times> nat \<Rightarrow> unit py" where
  "axis_off lib ax =
     bind_py (warn_all (warnings lib AxisOff)) (\<lambda>_.
     modify_py (on_current (update_axes ax (\<lambda>a. a\<lparr>axis_on := False\<rparr>))))"

definition plt_suptitle :: "library \<Rightarrow> string \<Rightarrow> unit py" where
  "plt_suptitle lib t =
     bind_py (warn_all (warnings lib (Suptitle t))) (\<lambda>_.
     modify_py (on_current (\<lambda>fig. fig\<lparr>suptitle := Some t\<rparr>)))"

text \<open>
  \<open>plt.tight_layout()\<close> measures the titles and labels of the current figure,
  which matplotlib may refuse, and then fits the axes.
\<close>

definition plt_tight_layout :: "library \<Rightarrow> unit py" where
  "plt_tight_layout lib =
     bind_py (get_py current_figure) (\<lambda>fig.
     bind_py (warn_all (warnings lib (TightLayout fig))) (\<lambda>_.
     bind_py (refusal lib (TightLayout fig)) (\<lambda>_.
     modify_py (on_current (\<lambda>fig. fig\<lparr>tight := True\<rparr>)))))"

text \<open>\<open>plt.show()\<close> displays every figure.\<close>

definition plt_show :: "library \<Rightarrow> unit py" where
  "plt_show lib =
     bind_py (warn_all (warnings lib Show)) (\<lambda>_.
     modify_py (\<lambda>s. s\<lparr>figures := map (\<lambda>fig. fig\<lparr>shown := True\<rparr>) (figures s)\<rparr>))"

text \<open>
  The body of the first loop of \<open>create_subplots\<close>, for the pair \<open>(i, column)\<close> of
  \<open>enumerate(numeric_columns)\<close>.  The arguments of the seaborn call are evaluated
  before the call: first \<open>data[column]\<close>, then \<open>axes[row, col]\<close>.
\<close>

definition plot_column ::
  "library \<Rightarrow> table \<Rightarrow> string \<Rightarrow> int \<Rightarrow> axes_array \<Rightarrow> nat \<Rightarrow> string \<Rightarrow> unit py" where
  "plot_column lib data plot_type num_cols axes i column =
     bind_py (lift_py (floordiv (int i) num_cols)) (\<lambda>row.
     bind_py (lift_py (pymod (int i) num_cols)) (\<lambda>col.
     bind_py
       (if plot_type = ''boxplot'' then
          bind_py (lift_py (getitem data column)) (\<lambda>x.
          bind_py (lift_py (axes_getitem axes row col)) (\<lambda>ax.
          sns_boxplot lib x ax))
        else if plot_type = ''histplot'' then
          bind_py (lift_py (getitem data column)) (\<lambda>x.
          bind_py (lift_py (axes_getitem axes row col)) (\<lambda>ax.
          sns_histplot lib x ax))
        else return_py ()) (\<lambda>_.
     bind_py (lift_py (axes_getitem axes row col)) (\<lambda>ax.
     set_title lib ax (capitalize column)))))"

fun plot_columns ::
  "library \<Rightarrow> table \<Rightarrow> string \<Rightarrow> int \<Rightarrow> axes_array \<Rightarrow> (nat \<times> string) list \<Rightarrow> unit py" where
  "plot_columns lib data plot_type num_cols axes [] = return_py ()"
| "plot_columns lib data plot_type num_cols axes ((i, column) # rest) =
     bind_py (plot_column lib data plot_type num_cols axes i column) (\<lambda>_.
     plot_columns lib data plot_type num_cols axes rest)"

text \<open>The body of the second loop, for \<open>i\<close> in \<open>range(num_plots, num_rows * num_cols)\<close>.\<close>

definition hide_cell :: "library \<Rightarrow> int \<Rightarrow> axes_array \<Rightarrow> int \<Rightarrow> unit py" where
  "hide_cell lib num_cols axes i =
     bind_py (lift_py (floordiv i num_cols)) (\<lambda>row.
     bind_py (lift_py (pymod i num_cols)) (\<lambda>col.
     bind_py (lift_py (axes_getitem axes row col)) (\<lambda>ax.
     axis_off lib ax)))"

fun hide_cells :: "library \<Rightarrow> int \<Rightarrow> axes_array \<Rightarrow> int list \<Rightarrow> unit py" where
  "hide_cells lib num_cols axes [] = return_py ()"
| "hide_cells lib num_cols axes (i # rest) =
     bind_py (hide_cell lib num_cols axes i) (\<lambda>_. hide_cells lib num_cols axes rest)"

definition create_subplots :: "library \<Rightarrow> table \<Rightarrow> string \<Rightarrow> int \<Rightarrow> unit py" where
  "create_subplots lib data plot_type num_cols =
     bind_py (lift_py (numeric_columns data)) (\<lambda>numeric_cols.
     bind_py (return_py (int (length numeric_cols))) (\<lambda>num_plots.
     bind_py (lift_py (floordiv (num_plots + num_cols - 1) num_cols)) (\<lambda>num_rows.
     bind_py (plt_subplots lib num_rows num_cols) (\<lambda>axes.
     bind_py (plot_columns lib data plot_type num_cols axes (enumerate 0 numeric_cols)) (\<lambda>_.
     bind_py (plt_suptitle lib
                ((if plot_type = ''boxplot'' then ''Boxplot'' else ''Histogram'') @ '' Analysis'')) (\<lambda>_.
     bind_py (hide_cells lib num_cols axes [num_plots..num_rows * num_cols - 1]) (\<lambda>_.
     bind_py (plt_tight_layout lib) (\<lambda>_.
     plt_show lib))))))))"

text \<open>
  What the two loops do to the figure: \<open>draw_column\<close> is one round of the first
  loop, \<open>hide_axes\<close> one round of the second, for the cell of the row-major index
  \<open>i\<close> in a grid of width \<open>w\<close>.  \<open>chart_axes\<close> are the axes of a finished chart and
  \<open>hidden_axes\<close> those of a hidden cell.
\<close>

definition draw_column :: "string \<Rightarrow> nat \<Rightarrow> nat \<Rightarrow> column \<Rightarrow> figure \<Rightarrow> figure" where
  "draw_column plot_type w i c fig =
     update_axes (i div w, i mod w) (\<lambda>a. a\<lparr>title := capitalize (name c)\<rparr>)
       (if plot_type = ''boxplot'' then
          update_axes (i div w, i mod w) (\<lambda>a. a\<lparr>charts := charts a @ [BoxChart (Series c)]\<rparr>) fig
        else if plot_type = ''histplot'' then
          update_axes (i div w, i mod w) (\<lambda>a. a\<lparr>charts := charts a @ [HistChart (Series c)]\<rparr>) fig
        else fig)"

definition hide_axes :: "nat \<Rightarrow> nat \<Rightarrow> figure \<Rightarrow> figure" where
  "hide_axes w i fig = update_axes (i div w, i mod w) (\<lambda>a. a\<lparr>axis_on := False\<rparr>) fig"

definition chart_for :: "string \<Rightarrow> column \<Rightarrow> chart list" where
  "chart_for plot_type c =
     (if plot_type = ''boxplot'' then [BoxChart (Series c)]
      else if plot_type = ''histplot'' then [HistChart (Series c)]
      else [])"

definition chart_axes :: "string \<Rightarrow> column \<Rightarrow> axes" where
  "chart_axes plot_type c =
     \<lparr>charts = chart_for plot_type c, title = capitalize (name c), axis_on = True\<rparr>"

definition hidden_axes :: axes where
  "hidden_axes = \<lparr>charts = [], title = [], axis_on = False\<rparr>"

text \<open>A grid of \<open>r\<close> rows of \<open>w\<close> cells each.\<close>

definition regular :: "nat \<Rightarrow> nat \<Rightarrow> 'a list list \<Rightarrow> bool" where
  "regular r w g \<longleftrightarrow> length g = r \<and> list_all (\<lambda>row. length row = w) g"

section \<open>Correlation heatmap\<close>

text \<open>
  \<open>data.corr()\<close> on a frame of numeric columns: one coefficient for every pair of
  columns, labelled by the column names in both directions.  pandas computes the
  coefficient of two columns over the rows where both values are finite, as the
  covariance divided by the root of the product of the two sums of squared
  deviations, and gives \<open>NaN\<close> when that divisor is zero.  For two equal value lists
  the quotient is \<open>1.0\<close> when the finite values are not all the same number, and the
  divisor is zero when they are (also when fewer than two values are finite).  Every
  other coefficient is kept symbolic.  Values are taken as exact numbers: rounding,
  overflow and underflow of the 64-bit float arithmetic are not modelled.
\<close>

fun finite_value :: "cell \<Rightarrow> bool" where
  "finite_value (IntVal i) = True"
| "finite_value (FloatVal m e) = True"
| "finite_value v = False"

fun number :: "cell \<Rightarrow> int \<times> int" where
  "number (IntVal i) = (i, 0)"
| "number (FloatVal m e) = (m, e)"
| "number v = (0, 0)"

definition same_number :: "cell \<Rightarrow> cell \<Rightarrow> bool" where
  "same_number u v =
     (case (number u, number v) of
        ((m, e), (m', e')) \<Rightarrow> m * 2 ^ nat (e - e') = m' * 2 ^ nat (e' - e))"

definition varies :: "cell list \<Rightarrow> bool" where
  "varies xs =
     (let finite = filter finite_value xs
      in list_ex (\<lambda>u. list_ex (\<lambda>v. \<not> same_number u v) finite) finite)"

definition pearson :: "cell list \<Rightarrow> cell list \<Rightarrow> coef" where
  "pearson xs ys = (if xs = ys then (if varies xs then One else NaN) else Pearson xs ys)"

definition corr_of :: "table \<Rightarrow> corr_matrix" where
  "corr_of data =
     \<lparr>corr_labels = map name (cols data),
      corr_cells = map (\<lambda>x. map (\<lambda>y. pearson (vals x) (vals y)) (cols data)) (cols data)\<rparr>"

definition df_corr :: "library \<Rightarrow> table \<Rightarrow> corr_matrix py" where
  "df_corr lib data = bind_py (warn_all (warnings lib (Corr data))) (\<lambda>_. return_py (corr_of data))"

text \<open>\<open>plt.figure(figsize=(8, 6))\<close> opens a figure without axes.\<close>

definition plt_figure :: "library \<Rightarrow> unit py" where
  "plt_figure lib =
     bind_py (warn_all (warnings lib NewFigure)) (\<lambda>_. modify_py (add_figure new_figure))"

text \<open>
  The current axes of a figure are the ones made last; pyplot makes a single Axes
  when the figure has none.
\<close>

definition on_gca :: "(axes \<Rightarrow> axes) \<Rightarrow> figure \<Rightarrow> figure" where
  "on_gca f fig =
     (if concat (grid fig) = [] then fig\<lparr>grid := [[f new_axes]]\<rparr>
      else update_axes (length (grid fig) - 1, length (last (grid fig)) - 1) f fig)"

text \<open>
  \<open>sns.heatmap(corr_matrix, annot=True, ...)\<close> draws on the current axes.  For the
  colour scale it takes the minimum and maximum of the matrix, and numpy refuses to
  reduce an empty array: \<open>ValueError\<close>.  After the cells it adds the axes of the
  colour bar to the figure; the current axes stay the ones of the heatmap.
\<close>

definition colorbar :: "corr_matrix \<Rightarrow> axes" where
  "colorbar m = \<lparr>charts = [ColorBar m], title = [], axis_on = True\<rparr>"

definition sns_heatmap :: "library \<Rightarrow> corr_matrix \<Rightarrow> unit py" where
  "sns_heatmap lib m =
     bind_py (warn_all (warnings lib (Heatmap m))) (\<lambda>_.
     if corr_labels m = [] then raise_py ValueError
     else bind_py (refusal lib (Heatmap m)) (\<lambda>_.
     modify_py (on_current (\<lambda>fig.
       (on_gca (\<lambda>a. a\<lparr>charts := charts a @ [HeatChart m]\<rparr>) fig)
         \<lparr>colorbars := colorbars fig @ [colorbar m]\<rparr>))))"

definition plt_title :: "library \<Rightarrow> string \<Rightarrow> unit py" where
  "plt_title lib t =
     bind_py (warn_all (warnings lib (Title t))) (\<lambda>_.
     modify_py (on_current (on_gca (\<lambda>a. a\<lparr>title := t\<rparr>))))"

definition create_heatmap :: "library \<Rightarrow> table \<Rightarrow> unit py" where
  "create_heatmap lib data =
     bind_py (lift_py (numeric_data data)) (\<lambda>data.
     bind_py (df_corr lib data) (\<lambda>corr_matrix.
     bind_py (plt_figure lib) (\<lambda>_.
     bind_py (sns_heatmap lib corr_matrix) (\<lambda>_.
     bind_py (plt_title lib ''Correlation Heatmap'') (\<lambda>_.
     bind_py (plt_tight_layout lib) (\<lambda>_.
     plt_show lib))))))"



section \<open>Loader\<close>

text \<open>
  The file system is a parameter: \<open>files csv\<close> is what \<open>pd.read_csv(csv)\<close> returns
  for the path, a frame or the exception it raises.
\<close>

type_synonym files = "string \<Rightarrow> error + table"

definition data_input :: "library \<Rightarrow> files \<Rightarrow> string \<Rightarrow> table py" where
  "data_input lib files csv =
     bind_py (warn_all (warnings lib (ReadCsv csv))) (\<lambda>_. lift_py (files csv))"

section \<open>Statistics aggregator\<close>

text \<open>
  The frames of the report are small: a list of field names (the columns of the
  frame) and, for every index label, one entry per field.  An entry is a missing
  value, a count, a dtype, or a statistic that pandas computes in floating point,
  kept symbolic: \<open>Stat f inf_as_na xs\<close> is the statistic \<open>f\<close> of the values \<open>xs\<close>
  under the given setting of \<open>mode.use_inf_as_na\<close>.
\<close>

datatype entry = Null | Count nat | Kind dtype | Stat string bool "cell list"

record report =
  report_fields :: "string list"
  report_rows :: "(string \<times> entry list) list"

text \<open>
  \<open>data_count\<close>: the loop stores \<open>[data.shape[0]]\<close> under every column label.  A
  dict keeps a key at its first position when the key is stored again.
\<close>

fun data_count_loop :: "nat \<Rightarrow> string list \<Rightarrow> (string \<times> nat list) list \<Rightarrow> (string \<times> nat list) list" where
  "data_count_loop n [] count_dict = count_dict"
| "data_count_loop n (column # columns) count_dict =
     data_count_loop n columns (AList.update column [n] count_dict)"

definition data_count :: "table \<Rightarrow> (string \<times> nat list) list" where
  "data_count data = data_count_loop (nrows data) (map name (cols data)) []"

text \<open>
  \<open>pd.DataFrame(count_dict).T.rename(columns={0: 'entry_count'})\<close>: one row for
  every key, holding the values of its list; the first field is renamed.
\<close>

definition counts_frame :: "(string \<times> nat list) list \<Rightarrow> report" where
  "counts_frame count_dict =
     \<lparr>report_fields = (if count_dict = [] then [] else [''entry_count'']),
      report_rows = map (\<lambda>(k, v). (k, map Count v)) count_dict\<rparr>"

text \<open>
  \<open>df[field] = series\<close> aligns the series with the index of the frame: a label
  the series lacks gets a missing value, and pandas refuses to reindex a series
  whose index repeats a label (the index of the frame comes from the keys of a dict,
  so it never equals such an index).
\<close>

definition setitem :: "report \<Rightarrow> string \<Rightarrow> (string \<times> entry) list \<Rightarrow> error + report" where
  "setitem df field series =
     (if \<not> distinct (map fst series) then Inl ValueError
      else Inr \<lparr>report_fields = report_fields df @ [field],
                report_rows = map (\<lambda>(k, es). (k, es @ [case map_of series k of
                                                           None \<Rightarrow> Null
                                                         | Some e \<Rightarrow> e]))
                                  (report_rows df)\<rparr>)"

definition data_type :: "table \<Rightarrow> (string \<times> entry) list" where
  "data_type data = map (\<lambda>c. (name c, Kind (dtypes c))) (cols data)"

text \<open>
  \<open>data.isnull().sum()\<close>: the missing values of every column.  With the option
  \<open>mode.use_inf_as_na\<close> on, pandas counts infinite values as missing.
\<close>

definition is_null :: "bool \<Rightarrow> cell \<Rightarrow> bool" where
  "is_null inf_as_na v \<longleftrightarrow> v = NA \<or> (inf_as_na \<and> (v = PosInf \<or> v = NegInf))"

definition data_isnull :: "bool \<Rightarrow> table \<Rightarrow> (string \<times> entry) list" where
  "data_isnull inf_as_na data =
     map (\<lambda>c. (name c, Count (length (filter (is_null inf_as_na) (vals c))))) (cols data)"

text \<open>
  \<open>data.describe().T\<close>.  By default pandas describes the numeric columns; a frame
  without a numeric column gets the description of all its columns, with the
  statistics of categorical data; a frame without columns is refused.
\<close>

definition numeric_stats :: "string list" where
  "numeric_stats = [''count'', ''mean'', ''std'', ''min'', ''25%'', ''50%'', ''75%'', ''max'']"

definition object_stats :: "string list" where
  "object_stats = [''count'', ''unique'', ''top'', ''freq'']"

definition describe_T :: "bool \<Rightarrow> table \<Rightarrow> error + report" where
  "describe_T inf_as_na data =
     (if cols data = [] then Inl ValueError
      else if filter numeric (cols data) \<noteq> [] then
        Inr \<lparr>report_fields = numeric_stats,
             report_rows = map (\<lambda>c. (name c, map (\<lambda>f. Stat f inf_as_na (vals c)) numeric_stats))
                               (filter numeric (cols data))\<rparr>
      else
        Inr \<lparr>report_fields = object_stats,
             report_rows = map (\<lambda>c. (name c, map (\<lambda>f. Stat f inf_as_na (vals c)) object_stats))
                               (cols data)\<rparr>)"

text \<open>\<open>df.drop(columns=field)\<close>; a field the frame lacks is a \<open>KeyError\<close>.\<close>

definition drop_column :: "report \<Rightarrow> string \<Rightarrow> error + report" where
  "drop_column df field =
     (if field \<notin> set (report_fields df) then Inl KeyError
      else Inr \<lparr>report_fields = filter (\<lambda>f. f \<noteq> field) (report_fields df),
                report_rows = map (\<lambda>(k, es). (k, map snd (filter (\<lambda>(f, e). f \<noteq> field)
                                                              (zip (report_fields df) es))))
                                  (report_rows df)\<rparr>)"

definition data_describe :: "library \<Rightarrow> table \<Rightarrow> report py" where
  "data_describe lib data =
     bind_py (warn_all (warnings lib (Describe data))) (\<lambda>_.
     bind_py (get_py use_inf_as_na) (\<lambda>inf_as_na.
     bind_py (lift_py (describe_T inf_as_na data)) (\<lambda>described.
     lift_py (drop_column described ''count''))))"

text \<open>
  \<open>pd.merge(df1, df2, left_index=True, right_index=True, how='left')\<close>: every row
  of \<open>df1\<close>, in order, joined with the rows of \<open>df2\<close> under the same label, or with
  missing values when \<open>df2\<close> has none.  (The two frames of the report share no field
  name, so no field is renamed.)
\<close>

definition merge_left :: "report \<Rightarrow> report \<Rightarrow> report" where
  "merge_left df1 df2 =
     \<lparr>report_fields = report_fields df1 @ report_fields df2,
      report_rows =
        concat (map (\<lambda>(k, es).
                  case filter (\<lambda>(k', es'). k' = k) (report_rows df2) of
                    [] \<Rightarrow> [(k, es @ replicate (length (report_fields df2)) Null)]
                  | m # ms \<Rightarrow> map (\<lambda>(k', es'). (k, es @ es')) (m # ms))
                (report_rows df1))\<rparr>"

text \<open>Lines 214 to 216 of the source: the table of counts, dtypes and null counts.\<close>

definition info_frame :: "bool \<Rightarrow> table \<Rightarrow> error + report" where
  "info_frame inf_as_na data =
     (case setitem (counts_frame (data_count data)) ''data_type'' (data_type data) of
        Inl e \<Rightarrow> Inl e
      | Inr df1 \<Rightarrow> setitem df1 ''null_count'' (data_isnull inf_as_na data))"

definition stats_report :: "library \<Rightarrow> files \<Rightarrow> string \<Rightarrow> report py" where
  "stats_report lib files csv =
     bind_py (data_input lib files csv) (\<lambda>data.
     bind_py (get_py use_inf_as_na) (\<lambda>inf_as_na.
     bind_py (lift_py (info_frame inf_as_na data)) (\<lambda>df1.
     bind_py (data_describe lib data) (\<lambda>df2.
     return_py (merge_left df1 df2)))))"

text \<open>The entry of a report under an index label and a field name, if the report has both.\<close>

definition cell_at :: "report \<Rightarrow> string \<Rightarrow> string \<Rightarrow> entry option" where
  "cell_at df k f =
     (case map_of (report_rows df) k of
        None \<Rightarrow> None
      | Some es \<Rightarrow> map_of (zip (report_fields df) es) f)"

text \<open>
  The entries of one row of the report: those of the counts table, and the statistics
  of a described column.
\<close>

definition null_count :: "bool \<Rightarrow> column \<Rightarrow> nat" where
  "null_count inf_as_na c = length (filter (is_null inf_as_na) (vals c))"

definition info_entries :: "bool \<Rightarrow> table \<Rightarrow> column \<Rightarrow> entry list" where
  "info_entries inf_as_na data c =
     [Count (nrows data), Kind (dtypes c), Count (null_count inf_as_na c)]"

definition stat_entries :: "string list \<Rightarrow> bool \<Rightarrow> column \<Rightarrow> entry list" where
  "stat_entries fs inf_as_na c = map (\<lambda>f. Stat f inf_as_na (vals c)) fs"

section \<open>Report driver\<close>

definition pd_set_option :: "library \<Rightarrow> bool \<Rightarrow> unit py" where
  "pd_set_option lib v =
     bind_py (warn_all (warnings lib SetOption)) (\<lambda>_. modify_py (\<lambda>s. s\<lparr>use_inf_as_na := v\<rparr>))"

text \<open>\<open>print(x)\<close> writes \<open>x\<close> and a newline.\<close>

definition py_print :: "string \<Rightarrow> unit py" where
  "py_print x = modify_py (\<lambda>s. s\<lparr>stdout := stdout s @ [x @ [CHR 0x0A]]\<rparr>)"

text \<open>
  \<open>with warnings.catch_warnings():\<close> saves the filters on entry and puts them back
  on exit, whether the body returns or raises.
\<close>

definition catch_warnings :: "'a py \<Rightarrow> 'a py" where
  "catch_warnings body s = (case body s of (r, s') \<Rightarrow> (r, s'\<lparr>filters := filters s\<rparr>))"

text \<open>Lines 225 to 232 of the source: the statements under the filter.\<close>

definition analysis_steps :: "library \<Rightarrow> files \<Rightarrow> string \<Rightarrow> int \<Rightarrow> unit py" where
  "analysis_steps lib files csv num_cols =
     bind_py (pd_set_option lib True) (\<lambda>_.
     bind_py (data_input lib files csv) (\<lambda>data.
     bind_py (py_print [CHR 0x0A]) (\<lambda>_.
     bind_py (create_subplots lib data ''boxplot'' num_cols) (\<lambda>_.
     bind_py (py_print [CHR 0x0A, CHR 0x0A]) (\<lambda>_.
     bind_py (create_subplots lib data ''histplot'' num_cols) (\<lambda>_.
     bind_py (py_print [CHR 0x0A, CHR 0x0A]) (\<lambda>_.
     create_heatmap lib data)))))))"

definition initial_analysis :: "library \<Rightarrow> files \<Rightarrow> string \<Rightarrow> int \<Rightarrow> unit py" where
  "initial_analysis lib files csv num_cols =
     catch_warnings
       (bind_py (simplefilter Ignore) (\<lambda>_. analysis_steps lib files csv num_cols))"

text \<open>
  The run the specification compares with: the same statements without
  \<open>catch_warnings\<close> and without \<open>simplefilter('ignore')\<close>.
\<close>

definition unwrapped_analysis :: "library \<Rightarrow> files \<Rightarrow> string \<Rightarrow> int \<Rightarrow> unit py" where
  "unwrapped_analysis lib files csv num_cols = analysis_steps lib files csv num_cols"

section \<open>Title case, as the specification words the subplot labels\<close>

text \<open>
  \<open>str.title()\<close>: every maximal run of letters starts in upper case and goes on in
  lower case.  This is the specification's wording, to compare \<open>capitalize\<close> with.
\<close>

definition is_letter :: "char \<Rightarrow> bool" where
  "is_letter c = (let n = of_char c :: nat in (65 \<le> n \<and> n \<le> 90) \<or> (97 \<le> n \<and> n \<le> 122))"

fun title_from :: "bool \<Rightarrow> string \<Rightarrow> string" where
  "title_from in_word [] = []"
| "title_from in_word (c # cs) =
     (if is_letter c then (if in_word then lower_char c else upper_char c) # title_from True cs
      else c # title_from False cs)"

definition spec_title_cased :: "string \<Rightarrow> string" where
  "spec_title_cased s = title_from False s"

section \<open>Runs that differ in their warnings only\<close>

text \<open>
  The filters are non-fatal when none of them has the action \<open>error\<close>.  Two states
  have the same results when they agree on everything but the warning machinery (the
  filters and what was shown on standard error).  \<open>sim m m'\<close> says that \<open>m\<close> and
  \<open>m'\<close>, started in such states under non-fatal filters, return the same value or raise
  the same exception and end in such states again.
\<close>

definition non_fatal :: "warning_filter list \<Rightarrow> bool" where
  "non_fatal fl \<longleftrightarrow> list_all (\<lambda>f. fst f \<noteq> Error) fl"

definition same_results :: "pystate \<Rightarrow> pystate \<Rightarrow> bool" where
  "same_results s t \<longleftrightarrow>
     stdout s = stdout t \<and> use_inf_as_na s = use_inf_as_na t \<and> figures s = figures t"

definition related :: "pystate \<Rightarrow> pystate \<Rightarrow> bool" where
  "related s t \<longleftrightarrow> same_results s t \<and> non_fatal (filters s) \<and> non_fatal (filters t)"

definition sim :: "'a py \<Rightarrow> 'a py \<Rightarrow> bool" where
  "sim m m' \<longleftrightarrow>
     (\<forall>s t. related s t \<longrightarrow> fst (m s) = fst (m' t) \<and> related (snd (m s)) (snd (m' t)))"

text \<open>A computation that leaves the pandas option as it found it.\<close>

definition keeps_option :: "'a py \<Rightarrow> bool" where
  "keeps_option m \<longleftrightarrow> (\<forall>s. use_inf_as_na (snd (m s)) = use_inf_as_na s)"

text \<open>
  The library that emits no warning and refuses no call, and the library that does
  as \<open>lib\<close> does but emits no warning.
\<close>

definition silent :: library where
  "silent = \<lparr>warnings = (\<lambda>call. []), refuses = (\<lambda>call inf_as_na. None)\<rparr>"

definition quiet :: "library \<Rightarrow> library" where
  "quiet lib = lib\<lparr>warnings := (\<lambda>call. [])\<rparr>"

text \<open>A library that emits an advisory warning in every call and refuses none.\<close>

definition noisy :: library where
  "noisy = \<lparr>warnings = (\<lambda>call. [(RuntimeWarning, ''advisory'')]),
            refuses = (\<lambda>call inf_as_na. None)\<rparr>"

text \<open>
  A library that warns in every call and refuses to box-plot a column in which every
  value is missing.
\<close>

definition strict :: library where
  "strict =
     \<lparr>warnings = (\<lambda>call. [(RuntimeWarning, ''advisory'')]),
      refuses = (\<lambda>call inf_as_na.
        case call of
          Boxplot (Series c) \<Rightarrow>
            if list_all (is_null inf_as_na) (vals c) then Some ValueError else None
        | _ \<Rightarrow> None)\<rparr>"

text \<open>
  The chart call of the first loop for a column, and whether the library accepts it.
\<close>

definition chart_refusal :: "library \<Rightarrow> bool \<Rightarrow> string \<Rightarrow> column \<Rightarrow> error option" where
  "chart_refusal lib inf_as_na plot_type c =
     (if plot_type = ''boxplot'' then refuses lib (Boxplot (Series c)) inf_as_na
      else if plot_type = ''histplot'' then refuses lib (Histplot (Series c)) inf_as_na
      else None)"

definition draws :: "library \<Rightarrow> bool \<Rightarrow> string \<Rightarrow> column \<Rightarrow> bool" where
  "draws lib inf_as_na plot_type c \<longleftrightarrow> chart_refusal lib inf_as_na plot_type c = None"

text \<open>A fresh interpreter: default filters, nothing printed, no figure.\<close>

definition fresh :: pystate where
  "fresh = \<lparr>filters = [], stderr = [], stdout = [], use_inf_as_na = False, figures = []\<rparr>"

section \<open>Example tables\<close>

text \<open>
  The table of the specification's scenario, cut to three rows: \<open>age\<close> (integer),
  \<open>income\<close> (float, one value missing) and \<open>city\<close> (text).
\<close>

definition people :: table where
  "people = \<lparr>nrows = 3, cols =
     [\<lparr>name = ''age'', dtypes = Int64, vals = [IntVal 31, IntVal 45, IntVal 27]\<rparr>,
      \<lparr>name = ''income'', dtypes = Float64, vals = [FloatVal 5 3, NA, FloatVal 7 2]\<rparr>,
      \<lparr>name = ''city'', dtypes = Object,
         vals = [TextVal ''Oslo'', TextVal ''Rome'', TextVal ''Lima'']\<rparr>]\<rparr>"

text \<open>
  A table with three numeric columns and one text column, as in the specification's
  scenario of a 2 x 2 grid with three charts.
\<close>

definition survey :: table where
  "survey = \<lparr>nrows = 2, cols =
     [\<lparr>name = ''height'', dtypes = Float64, vals = [FloatVal 7 4, FloatVal 13 3]\<rparr>,
      \<lparr>name = ''site'', dtypes = Object, vals = [TextVal ''north'', TextVal ''south'']\<rparr>,
      \<lparr>name = ''total income'', dtypes = Int64, vals = [IntVal 52000, IntVal 61000]\<rparr>,
      \<lparr>name = ''AGE'', dtypes = Int64, vals = [IntVal 40, IntVal 35]\<rparr>]\<rparr>"

text \<open>A table with a column whose values are all missing.\<close>

definition sparse :: table where
  "sparse = \<lparr>nrows = 2, cols =
     [\<lparr>name = ''id'', dtypes = Int64, vals = [IntVal 1, IntVal 2]\<rparr>,
      \<lparr>name = ''blank'', dtypes = Float64, vals = [NA, NA]\<rparr>,
      \<lparr>name = ''tag'', dtypes = Object, vals = [TextVal ''x'', NA]\<rparr>]\<rparr>"

text \<open>
  A table without numeric columns, and two with a single numeric column: constant in
  \<open>readings\<close>, not constant in \<open>levels\<close>.
\<close>

definition remarks :: table where
  "remarks = \<lparr>nrows = 2, cols =
     [\<lparr>name = ''comment'', dtypes = Object, vals = [TextVal ''ok'', NA]\<rparr>]\<rparr>"



text \<open>A table of three numeric columns, the second without a value.\<close>

definition gaps :: table where
  "gaps = \<lparr>nrows = 2, cols =
     [\<lparr>name = ''a'', dtypes = Int64, vals = [IntVal 1, IntVal 2]\<rparr>,
      \<lparr>name = ''b'', dtypes = Float64, vals = [NA, NA]\<rparr>,
      \<lparr>name = ''c'', dtypes = Int64, vals = [IntVal 3, IntVal 4]\<rparr>]\<rparr>"

text \<open>The files of a disk that holds the example tables.\<close>

definition disk :: files where
  "disk csv =
     (if csv = ''survey.csv'' then Inr survey
      else if csv = ''people.csv'' then Inr people
      else if csv = ''sparse.csv'' then Inr sparse
      else if csv = ''remarks.csv'' then Inr remarks
      else Inl FileNotFoundError)"


section \<open>Properties of the classifier\<close>

lemma filter_label_unique:
  "distinct (map name cs) \<Longrightarrow> c \<in> set cs \<Longrightarrow> filter (\<lambda>d. name d = name c) cs = [c]"
proof (induction cs)
  case Nil
  then show ?case by simp
next
  case (Cons d cs)
  show ?case
  proof (cases "d = c")
    case True
    from Cons.prems(1) True have "name c \<notin> name ` set cs" by simp
    then have "filter (\<lambda>x. name x = name c) cs = []"
      by (induction cs) auto
    with True show ?thesis by simp
  next
    case False
    with Cons.prems have in_cs: "c \<in> set cs" by simp
    with Cons.prems(1) have "name d \<noteq> name c" by auto
    with Cons.IH Cons.prems(1) in_cs show ?thesis by simp
  qed
qed

lemma find_label_unique:
  "distinct (map name cs) \<Longrightarrow> c \<in> set cs \<Longrightarrow> find (\<lambda>d. name d = name c) cs = Some c"
  by (induction cs) auto

lemma getitem_unique:
  "distinct (map name (cols data)) \<Longrightarrow> c \<in> set (cols data) \<Longrightarrow>
   getitem data (name c) = Inr (Series c)"
  by (simp add: getitem_def filter_label_unique)

lemma comprehension_total:
  "(\<And>x. x \<in> set xs \<Longrightarrow> p x = Inr (q x)) \<Longrightarrow> comprehension p xs = Inr (filter q xs)"
  by (induction xs) auto

lemma comprehension_labels:
  assumes "\<And>c. c \<in> set cs \<Longrightarrow> p (name c) = Inr (q c)"
  shows "comprehension p (map name cs) = Inr (map name (filter q cs))"
  using assms by (induction cs) auto

lemma numeric_columns_wf:
  assumes "distinct (map name (cols data))"
  shows "numeric_columns data = Inr (map name (filter numeric (cols data)))"
  unfolding numeric_columns_def
  by (rule comprehension_labels) (simp add: is_numeric_def getitem_unique assms)

lemma non_numeric_columns_wf:
  assumes "distinct (map name (cols data))"
  shows "non_numeric_columns data = Inr (map name (filter (\<lambda>c. \<not> numeric c) (cols data)))"
  unfolding non_numeric_columns_def
  by (rule comprehension_labels) (simp add: is_non_numeric_def getitem_unique assms)

lemma DataFrame_selects:
  assumes "distinct (map name (cols data))"
  shows "DataFrame data (map name (filter q (cols data)))
         = Inr \<lparr>nrows = nrows data, cols = filter q (cols data)\<rparr>"
proof -
  have "map (\<lambda>l. case find (\<lambda>c. name c = l) (cols data) of
                    Some c \<Rightarrow> c
                  | None \<Rightarrow> \<lparr>name = l, dtypes = Float64, vals = replicate (nrows data) NA\<rparr>)
          (map name (filter q (cols data)))
        = filter q (cols data)"
    unfolding map_map by (rule map_idI) (simp add: find_label_unique assms)
  with assms show ?thesis by (simp add: DataFrame_def)
qed

lemma numeric_data_wf:
  "distinct (map name (cols data)) \<Longrightarrow>
   numeric_data data = Inr \<lparr>nrows = nrows data, cols = filter numeric (cols data)\<rparr>"
  by (simp add: numeric_data_def numeric_columns_wf DataFrame_selects)

lemma non_numeric_data_wf:
  "distinct (map name (cols data)) \<Longrightarrow>
   non_numeric_data data
   = Inr \<lparr>nrows = nrows data, cols = filter (\<lambda>c. \<not> numeric c) (cols data)\<rparr>"
  by (simp add: non_numeric_data_def non_numeric_columns_wf DataFrame_selects)

lemma wf_people: "wf_table people"
  by (simp add: wf_table_def people_def)

text \<open>
  C4.  For every table, \<open>numeric_data\<close> and \<open>non_numeric_data\<close> return without
  raising, also when one of them selects no column.  The two results share no column
  label, each has the row count of the table (and one value per row in every column),
  each holds its qualifying columns in the table's column order, and together they
  hold exactly the table's columns.
\<close>

theorem classifier_partitions_columns:
  assumes "wf_table T"
  shows "\<exists>N M. numeric_data T = Inr N \<and> non_numeric_data T = Inr M
           \<and> set (map name (cols N)) \<inter> set (map name (cols M)) = {}
           \<and> nrows N = nrows T \<and> nrows M = nrows T \<and> wf_table N \<and> wf_table M
           \<and> cols N = filter numeric (cols T)
           \<and> cols M = filter (\<lambda>c. \<not> numeric c) (cols T)
           \<and> set (cols N) \<union> set (cols M) = set (cols T)"
proof -
  let ?N = "\<lparr>nrows = nrows T, cols = filter numeric (cols T)\<rparr>"
  let ?M = "\<lparr>nrows = nrows T, cols = filter (\<lambda>c. \<not> numeric c) (cols T)\<rparr>"
  from assms have d: "distinct (map name (cols T))"
    and l: "list_all (\<lambda>c. length (vals c) = nrows T) (cols T)"
    by (simp_all add: wf_table_def)
  have disjoint: "set (map name (cols ?N)) \<inter> set (map name (cols ?M)) = {}"
  proof (rule ccontr)
    assume "set (map name (cols ?N)) \<inter> set (map name (cols ?M)) \<noteq> {}"
    then obtain a b where a: "a \<in> set (cols T)" "numeric a"
      and b: "b \<in> set (cols T)" "\<not> numeric b" and ab: "name a = name b"
      by auto
    from d a(1) b(1) ab have "a = b"
      by (meson distinct_map inj_onD)
    with a(2) b(2) show False by simp
  qed
  have wfN: "wf_table ?N" and wfM: "wf_table ?M"
    using d l by (simp_all add: wf_table_def distinct_map_filter list_all_iff)
  have union: "set (cols ?N) \<union> set (cols ?M) = set (cols T)"
    by auto
  from numeric_data_wf [OF d] non_numeric_data_wf [OF d] disjoint wfN wfM union
  show ?thesis by simp
qed

theorem classifier_partitions_columns_witness:
  "wf_table people \<and>
   (\<exists>N M. numeric_data people = Inr N \<and> non_numeric_data people = Inr M
           \<and> set (map name (cols N)) \<inter> set (map name (cols M)) = {}
           \<and> nrows N = nrows people \<and> nrows M = nrows people \<and> wf_table N \<and> wf_table M
           \<and> cols N = filter numeric (cols people)
           \<and> cols M = filter (\<lambda>c. \<not> numeric c) (cols people)
           \<and> set (cols N) \<union> set (cols M) = set (cols people))"
  using wf_people classifier_partitions_columns [OF wf_people] by (rule conjI)

section \<open>Laws of the state-and-exception computations\<close>

lemma bind_return [simp]: "bind_py (return_py x) f = f x"
  by (rule ext) (simp add: bind_py_def return_py_def)

lemma bind_raise [simp]: "bind_py (raise_py e) f = raise_py e"
  by (rule ext) (simp add: bind_py_def raise_py_def)

lemma lift_Inr [simp]: "lift_py (Inr x) = return_py x"
  by (rule ext) (simp add: lift_py_def return_py_def)

lemma lift_Inl [simp]: "lift_py (Inl e) = raise_py e"
  by (rule ext) (simp add: lift_py_def raise_py_def)

lemma bind_modify [simp]: "bind_py (modify_py g) f s = f () (g s)"
  by (simp add: bind_py_def modify_py_def)

lemma warn_all_silent [simp]: "warn_all (warnings silent call) = return_py ()"
  by (simp add: silent_def)

lemma warn_all_quiet [simp]: "warn_all (warnings (quiet lib) call) = return_py ()"
  by (simp add: quiet_def)

lemma refuses_quiet [simp]: "refuses (quiet lib) = refuses lib"
  by (simp add: quiet_def)

lemma quiet_silent: "quiet silent = silent"
  by (simp add: quiet_def silent_def)

lemma refusal_silent [simp]: "refusal silent call = return_py ()"
  by (rule ext) (simp add: refusal_def silent_def return_py_def)

section \<open>Non-fatal warnings change standard error only\<close>

lemma action_for_non_fatal: "non_fatal fl \<Longrightarrow> action_for fl c \<noteq> Error"
  by (induction fl c rule: action_for.induct) (auto simp: non_fatal_def)

lemma warn_non_fatal:
  assumes "non_fatal (filters s)"
  shows "fst (warn w s) = Inr () \<and> same_results (snd (warn w s)) s
         \<and> filters (snd (warn w s)) = filters s"
  using action_for_non_fatal [OF assms, of "fst w"]
  by (cases "action_for (filters s) (fst w)") (simp_all add: warn_def same_results_def)

lemma warn_all_non_fatal:
  "non_fatal (filters s) \<Longrightarrow>
   fst (warn_all ws s) = Inr () \<and> same_results (snd (warn_all ws s)) s
   \<and> filters (snd (warn_all ws s)) = filters s"
proof (induction ws arbitrary: s)
  case Nil
  then show ?case by (simp add: return_py_def same_results_def)
next
  case (Cons w ws)
  obtain r s' where ws: "warn w s = (r, s')" by (cases "warn w s")
  with warn_non_fatal [OF Cons.prems, of w]
  have r: "r = Inr ()" and same: "same_results s' s" and fl: "filters s' = filters s"
    by simp_all
  from Cons.prems fl have "non_fatal (filters s')" by simp
  from Cons.IH [OF this] same fl ws r show ?case
    by (simp add: bind_py_def same_results_def)
qed

lemma sim_return: "sim (return_py x) (return_py x)"
  by (simp add: sim_def return_py_def)

lemma sim_raise: "sim (raise_py e) (raise_py e)"
  by (simp add: sim_def raise_py_def)

lemma sim_lift: "sim (lift_py r) (lift_py r)"
  by (simp add: sim_def lift_py_def)

lemma sim_bind:
  assumes "sim m m'" and "\<And>x. sim (f x) (f' x)"
  shows "sim (bind_py m f) (bind_py m' f')"
  unfolding sim_def
proof (intro allI impI)
  fix s t assume rel: "related s t"
  obtain r s' where ms: "m s = (r, s')" by (cases "m s")
  obtain r' t' where mt: "m' t = (r', t')" by (cases "m' t")
  from assms(1) rel have "fst (m s) = fst (m' t) \<and> related (snd (m s)) (snd (m' t))"
    unfolding sim_def by blast
  with ms mt have rr: "r = r'" and rel': "related s' t'"
    by simp_all
  show "fst (bind_py m f s) = fst (bind_py m' f' t)
        \<and> related (snd (bind_py m f s)) (snd (bind_py m' f' t))"
  proof (cases r)
    case (Inl e)
    with rr ms mt have "m s = (Inl e, s')" and "m' t = (Inl e, t')" by simp_all
    with rel' show ?thesis by (simp add: bind_py_def)
  next
    case (Inr x)
    with rr ms mt have "m s = (Inr x, s')" and "m' t = (Inr x, t')" by simp_all
    with assms(2) [of x] rel' show ?thesis by (simp add: bind_py_def sim_def)
  qed
qed

lemma sim_warn_all: "sim (warn_all ws) (warn_all ws')"
  unfolding sim_def
proof (intro allI impI)
  fix s t assume rel: "related s t"
  then have nf: "non_fatal (filters s)" "non_fatal (filters t)" by (simp_all add: related_def)
  from warn_all_non_fatal [OF nf(1), of ws] warn_all_non_fatal [OF nf(2), of ws'] rel
  show "fst (warn_all ws s) = fst (warn_all ws' t)
        \<and> related (snd (warn_all ws s)) (snd (warn_all ws' t))"
    by (simp add: related_def same_results_def)
qed

lemma sim_modify:
  assumes "\<And>s t. related s t \<Longrightarrow> related (g s) (g' t)"
  shows "sim (modify_py g) (modify_py g')"
  using assms by (simp add: sim_def modify_py_def)

lemma related_figures:
  "related s t \<Longrightarrow> related (s\<lparr>figures := F (figures s)\<rparr>) (t\<lparr>figures := F (figures t)\<rparr>)"
  by (simp add: related_def same_results_def)

lemma on_current_figures:
  "on_current f s = s\<lparr>figures := (\<lambda>fs. if fs = [] then [f new_figure]
                                      else butlast fs @ [f (last fs)]) (figures s)\<rparr>"
  by (simp add: on_current_def)

lemma related_on_current: "related s t \<Longrightarrow> related (on_current f s) (on_current f t)"
  unfolding on_current_figures by (rule related_figures)

lemma related_add_figure: "related s t \<Longrightarrow> related (add_figure fig s) (add_figure fig t)"
  by (simp add: related_def same_results_def add_figure_def)

lemma sim_if:
  "(c \<Longrightarrow> sim a a') \<Longrightarrow> (\<not> c \<Longrightarrow> sim b b') \<Longrightarrow> sim (if c then a else b) (if c then a' else b')"
  by simp

lemma sim_get: "sim (get_py use_inf_as_na) (get_py use_inf_as_na)"
  by (simp add: sim_def get_py_def related_def same_results_def)

lemma sim_current_figure: "sim (get_py current_figure) (get_py current_figure)"
  by (simp add: sim_def get_py_def related_def same_results_def current_figure_def)

text \<open>Two libraries that refuse the same calls may differ in their warnings only.\<close>

lemma sim_refusal:
  assumes "refuses lib' = refuses lib"
  shows "sim (refusal lib call) (refusal lib' call)"
  unfolding sim_def
proof (intro allI impI)
  fix s t assume rel: "related s t"
  then have "use_inf_as_na s = use_inf_as_na t" by (simp add: related_def same_results_def)
  with rel assms
  show "fst (refusal lib call s) = fst (refusal lib' call t)
        \<and> related (snd (refusal lib call s)) (snd (refusal lib' call t))"
    by (cases "refuses lib call (use_inf_as_na t)") (simp_all add: refusal_def)
qed

lemmas sim_intros = sim_bind sim_if sim_warn_all sim_return sim_raise sim_lift sim_modify
  related_on_current related_add_figure sim_get sim_current_figure sim_refusal

lemma sim_plt_subplots: "sim (plt_subplots lib r c) (plt_subplots lib' r c)"
  unfolding plt_subplots_def by (intro sim_intros | assumption)+

lemma sim_plot_column:
  assumes "refuses lib' = refuses lib"
  shows "sim (plot_column lib data plot_type num_cols axes i column)
             (plot_column lib' data plot_type num_cols axes i column)"
  unfolding plot_column_def sns_boxplot_def sns_histplot_def set_title_def
  by (intro sim_intros assms | assumption)+

lemma sim_plot_columns:
  assumes "refuses lib' = refuses lib"
  shows "sim (plot_columns lib data plot_type num_cols axes ics)
             (plot_columns lib' data plot_type num_cols axes ics)"
proof (induction ics)
  case Nil
  show ?case by (simp add: sim_return)
next
  case (Cons ic ics)
  obtain i column where "ic = (i, column)" by (cases ic)
  with Cons show ?case by (simp add: sim_bind sim_plot_column [OF assms])
qed

lemma sim_hide_cells:
  "sim (hide_cells lib num_cols axes is) (hide_cells lib' num_cols axes is)"
proof (induction "is")
  case Nil
  show ?case by (simp add: sim_return)
next
  case (Cons i "is")
  have "sim (hide_cell lib num_cols axes i) (hide_cell lib' num_cols axes i)"
    unfolding hide_cell_def axis_off_def by (intro sim_intros | assumption)+
  with Cons show ?case by (simp add: sim_bind)
qed

lemma related_show:
  "related s t \<Longrightarrow>
   related (s\<lparr>figures := map (\<lambda>fig. fig\<lparr>shown := True\<rparr>) (figures s)\<rparr>)
           (t\<lparr>figures := map (\<lambda>fig. fig\<lparr>shown := True\<rparr>) (figures t)\<rparr>)"
  by (rule related_figures)

lemma sim_plt_show: "sim (plt_show lib) (plt_show lib')"
  unfolding plt_show_def by (intro sim_intros related_show | assumption)+

lemma sim_plt_tight_layout:
  assumes "refuses lib' = refuses lib"
  shows "sim (plt_tight_layout lib) (plt_tight_layout lib')"
  unfolding plt_tight_layout_def by (intro sim_intros assms | assumption)+

lemma sim_create_subplots:
  assumes "refuses lib' = refuses lib"
  shows "sim (create_subplots lib data plot_type num_cols)
             (create_subplots lib' data plot_type num_cols)"
  unfolding create_subplots_def plt_suptitle_def
  by (intro sim_intros sim_plt_subplots sim_plot_columns sim_hide_cells sim_plt_show
        sim_plt_tight_layout assms | assumption)+

text \<open>
  Under non-fatal filters a run ends as the run with the same library made quiet,
  with the same figures.
\<close>

lemma create_subplots_quiet:
  assumes "non_fatal (filters s)"
  shows "fst (create_subplots lib data plot_type num_cols s)
           = fst (create_subplots (quiet lib) data plot_type num_cols s)
         \<and> figures (snd (create_subplots lib data plot_type num_cols s))
           = figures (snd (create_subplots (quiet lib) data plot_type num_cols s))"
proof -
  from assms have "related s s" by (simp add: related_def same_results_def)
  moreover have "sim (create_subplots lib data plot_type num_cols)
                     (create_subplots (quiet lib) data plot_type num_cols)"
    by (rule sim_create_subplots) simp
  ultimately show ?thesis
    unfolding sim_def related_def same_results_def by blast
qed

lemma on_current_add_figure [simp]:
  "on_current f (add_figure fig s) = add_figure (f fig) s"
  by (simp add: on_current_def add_figure_def)

lemmas py_defs = bind_py_def return_py_def raise_py_def lift_py_def modify_py_def

lemma single_row_div:
  assumes "1 \<le> n" and "n \<le> w"
  shows "(n + w - 1) div w = (1::int)"
proof -
  have "n + w - 1 = (n - 1) + 1 * w" by simp
  moreover have "0 \<le> n - 1" "n - 1 < w" using assms by simp_all
  ultimately show ?thesis
    by (simp only: div_mult_self1 div_pos_pos_trivial)
qed

lemma plt_subplots_quiet:
  assumes "0 < num_rows" and "0 < num_cols"
  shows "plt_subplots (quiet lib) num_rows num_cols s
         = (Inr (squeeze (nat num_rows) (nat num_cols)),
            add_figure (new_figure\<lparr>grid := replicate (nat num_rows)
                                              (replicate (nat num_cols) new_axes)\<rparr>) s)"
  using assms by (simp add: plt_subplots_def py_defs)

lemma plot_column_bad_axes:
  assumes "getitem data column = Inr x" and "num_cols \<noteq> 0"
    and "\<And>row col. axes_getitem axes row col = Inl e"
  shows "plot_column lib data plot_type num_cols axes i column s = (Inl e, s)"
  using assms by (simp add: plot_column_def floordiv_def pymod_def py_defs)

lemma squeeze_single_row:
  "0 < c \<Longrightarrow> axes_getitem (squeeze 1 c) row col = Inl (if c = 1 then TypeError else IndexError)"
  by (simp add: squeeze_def)

lemma bind_py_Inl: "m s = (Inl e, s') \<Longrightarrow> bind_py m f s = (Inl e, s')"
  by (simp add: bind_py_def)

lemma bind_py_Inr: "m s = (Inr x, s') \<Longrightarrow> bind_py m f s = f x s'"
  by (simp add: bind_py_def)

lemma create_subplots_single_row_quiet:
  assumes wf: "wf_table T"
    and n1: "1 \<le> length (filter numeric (cols T))"
    and nw: "int (length (filter numeric (cols T))) \<le> num_cols"
  shows "create_subplots (quiet lib) T plot_type num_cols s
         = (Inl (if num_cols = 1 then TypeError else IndexError),
            add_figure (new_figure\<lparr>grid := [replicate (nat num_cols) new_axes]\<rparr>) s)"
proof -
  define s1 where "s1 = add_figure (new_figure\<lparr>grid := [replicate (nat num_cols) new_axes]\<rparr>) s"
  define e where "e = (if num_cols = 1 then TypeError else IndexError)"
  define ax where "ax = squeeze 1 (nat num_cols)"
  define labels where "labels = map name (filter numeric (cols T))"
  from wf have d: "distinct (map name (cols T))" by (simp add: wf_table_def)
  from n1 obtain c cs where ccs: "filter numeric (cols T) = c # cs"
    by (cases "filter numeric (cols T)") simp_all
  then have "c \<in> set (cols T)"
    by (metis filter_is_subset list.set_intros(1) subsetD)
  with d have gi: "getitem T (name c) = Inr (Series c)" by (rule getitem_unique)
  from n1 nw have w1: "0 < num_cols" by simp
  from n1 nw have rows: "(int (length labels) + num_cols - 1) div num_cols = 1"
    unfolding labels_def by (intro single_row_div) simp_all
  have columns: "numeric_columns T = Inr labels"
    unfolding labels_def by (rule numeric_columns_wf [OF d])
  have grid: "plt_subplots (quiet lib) 1 num_cols s = (Inr ax, s1)"
    using plt_subplots_quiet [of 1 num_cols lib s] w1 by (simp add: ax_def s1_def)
  have bad: "\<And>row col. axes_getitem ax row col = Inl e"
    using w1 squeeze_single_row [of "nat num_cols"] by (simp add: nat_eq_iff ax_def e_def)
  have col0: "plot_column (quiet lib) T plot_type num_cols ax 0 (name c) s1 = (Inl e, s1)"
    using gi w1 bad by (intro plot_column_bad_axes) simp_all
  have "enumerate 0 labels = (0, name c) # enumerate 1 (map name cs)"
    by (simp add: labels_def ccs)
  then have loop: "plot_columns (quiet lib) T plot_type num_cols ax (enumerate 0 labels) s1
                   = (Inl e, s1)"
    by (simp add: bind_py_def col0)
  show ?thesis
    unfolding create_subplots_def s1_def [symmetric] e_def [symmetric]
    using w1
    by (simp add: columns floordiv_def rows py_defs grid loop)
qed


lemma create_subplots_zero_width:
  assumes "distinct (map name (cols T))"
  shows "create_subplots lib T plot_type 0 s = (Inl ZeroDivisionError, s)"
  unfolding create_subplots_def
  by (simp add: numeric_columns_wf [OF assms] floordiv_def py_defs)

lemma plt_subplots_negative_width:
  "num_cols < 0 \<Longrightarrow> fst (plt_subplots (quiet lib) num_rows num_cols s) = Inl ValueError"
  by (simp add: plt_subplots_def py_defs)

lemma create_subplots_negative_width_quiet:
  assumes "distinct (map name (cols T))" and "num_cols < 0"
  shows "fst (create_subplots (quiet lib) T plot_type num_cols s) = Inl ValueError"
proof -
  define num_rows where
    "num_rows = (int (length (filter numeric (cols T))) + num_cols - 1) div num_cols"
  obtain r s1 where sub: "plt_subplots (quiet lib) num_rows num_cols s = (r, s1)"
    by (cases "plt_subplots (quiet lib) num_rows num_cols s")
  with plt_subplots_negative_width [OF assms(2), of lib num_rows s] have "r = Inl ValueError"
    by simp
  with sub assms(2) show ?thesis
    unfolding create_subplots_def
    by (simp add: numeric_columns_wf [OF assms(1)] floordiv_def py_defs num_rows_def)
qed

lemma non_fatal_fresh: "non_fatal (filters fresh)"
  by (simp add: non_fatal_def fresh_def)

lemma numeric_people:
  "filter numeric (cols people)
   = [\<lparr>name = ''age'', dtypes = Int64, vals = [IntVal 31, IntVal 45, IntVal 27]\<rparr>,
      \<lparr>name = ''income'', dtypes = Float64, vals = [FloatVal 5 3, NA, FloatVal 7 2]\<rparr>]"
  by (simp add: people_def)

text \<open>
  C9.  When the table has between one and \<open>num_cols\<close> numeric columns, so that the
  grid has a single row, \<open>create_subplots\<close> raises at the first \<open>axes[row, col]\<close>:
  \<open>IndexError\<close> on the one-dimensional array of axes, and \<open>TypeError\<close> on the bare
  Axes object of a 1 x 1 grid.  The figure is left with its empty axes: nothing was
  drawn.
\<close>

theorem single_row_grid_raises:
  assumes "wf_table T" and "non_fatal (filters s)"
    and "1 \<le> length (filter numeric (cols T))"
    and "int (length (filter numeric (cols T))) \<le> num_cols"
  shows "fst (create_subplots lib T plot_type num_cols s)
           = Inl (if num_cols = 1 then TypeError else IndexError)
         \<and> figures (snd (create_subplots lib T plot_type num_cols s))
           = figures s @ [new_figure\<lparr>grid := [replicate (nat num_cols) new_axes]\<rparr>]"
  using create_subplots_quiet [OF assms(2), of lib T plot_type num_cols]
    create_subplots_single_row_quiet [OF assms(1,3,4), of lib plot_type s]
  by (simp add: add_figure_def)

theorem single_row_grid_raises_witness:
  "wf_table people \<and> non_fatal (filters fresh)
   \<and> 1 \<le> length (filter numeric (cols people))
   \<and> int (length (filter numeric (cols people))) \<le> 2
   \<and> fst (create_subplots noisy people ''boxplot'' 2 fresh) = Inl IndexError"
proof -
  have n1: "1 \<le> length (filter numeric (cols people))"
    and nw: "int (length (filter numeric (cols people))) \<le> 2"
    by (simp_all add: numeric_people)
  from single_row_grid_raises [OF wf_people non_fatal_fresh n1 nw, of noisy "''boxplot''"]
    wf_people non_fatal_fresh n1 nw
  show ?thesis by simp
qed

text \<open>
  C2.  The source has no \<open>InvalidConfigError\<close> and no check of \<open>num_cols\<close>.  With
  \<open>num_cols = 0\<close> the row count \<open>(num_plots + num_cols - 1) // num_cols\<close> raises
  \<open>ZeroDivisionError\<close>, before any library call, so the state is untouched and no
  figure exists.  With a negative \<open>num_cols\<close> matplotlib raises \<open>ValueError\<close>.
\<close>

theorem non_positive_width_raises:
  assumes "wf_table T" and "non_fatal (filters s)" and "num_cols \<le> 0"
  shows "fst (create_subplots lib T plot_type num_cols s)
           = Inl (if num_cols = 0 then ZeroDivisionError else ValueError)
         \<and> fst (create_subplots lib T plot_type num_cols s) \<noteq> Inl InvalidConfigError
         \<and> (num_cols = 0 \<longrightarrow> snd (create_subplots lib T plot_type num_cols s) = s)"
proof (cases "num_cols = 0")
  case True
  from assms(1) have "distinct (map name (cols T))" by (simp add: wf_table_def)
  from create_subplots_zero_width [OF this, of lib plot_type s] True show ?thesis by simp
next
  case False
  with assms(3) have neg: "num_cols < 0" by simp
  from assms(1) have "distinct (map name (cols T))" by (simp add: wf_table_def)
  from create_subplots_negative_width_quiet [OF this neg, of lib plot_type s]
    create_subplots_quiet [OF assms(2), of lib T plot_type num_cols] False
  show ?thesis by simp
qed

theorem non_positive_width_raises_witness:
  "wf_table people \<and> non_fatal (filters fresh) \<and> (-2::int) \<le> 0
   \<and> fst (create_subplots noisy people ''histplot'' (-2) fresh) = Inl ValueError"
proof -
  have le: "(-2::int) \<le> 0" by simp
  from non_positive_width_raises [OF wf_people non_fatal_fresh le, of noisy "''histplot''"]
    wf_people non_fatal_fresh
  show ?thesis by simp
qed

theorem zero_width_is_not_invalid_config:
  "fst (create_subplots silent people ''boxplot'' 0 fresh) = Inl ZeroDivisionError
   \<and> fst (create_subplots silent people ''boxplot'' 0 fresh) \<noteq> Inl InvalidConfigError"
proof -
  from wf_people have "distinct (map name (cols people))" by (simp add: wf_table_def)
  from create_subplots_zero_width [OF this, of silent "''boxplot''" fresh] show ?thesis by simp
qed

text \<open>
  C1.  Two numeric columns in a grid of width three: the layout law asks for one row,
  two populated cells and one hidden cell.  The run raises \<open>IndexError\<close> at the first
  \<open>axes[row, col]\<close>, and the figure it leaves holds three untouched axes: no cell is
  populated and none is hidden.
\<close>

theorem layout_law_fails_on_single_row:
  "fst (create_subplots silent people ''boxplot'' 3 fresh) = Inl IndexError
   \<and> figures (snd (create_subplots silent people ''boxplot'' 3 fresh))
     = [new_figure\<lparr>grid := [[new_axes, new_axes, new_axes]]\<rparr>]"
proof -
  have n1: "1 \<le> length (filter numeric (cols people))"
    and nw: "int (length (filter numeric (cols people))) \<le> 3"
    by (simp_all add: numeric_people)
  from create_subplots_single_row_quiet [OF wf_people n1 nw, of silent "''boxplot''" fresh]
  show ?thesis by (simp add: quiet_silent add_figure_def fresh_def numeral_3_eq_3)
qed

section \<open>The pandas option\<close>

lemma keeps_return: "keeps_option (return_py x)"
  by (simp add: keeps_option_def return_py_def)

lemma keeps_raise: "keeps_option (raise_py e)"
  by (simp add: keeps_option_def raise_py_def)

lemma keeps_lift: "keeps_option (lift_py r)"
  by (simp add: keeps_option_def lift_py_def)

lemma keeps_if:
  "(c \<Longrightarrow> keeps_option a) \<Longrightarrow> (\<not> c \<Longrightarrow> keeps_option b) \<Longrightarrow> keeps_option (if c then a else b)"
  by simp

lemma keeps_bind:
  assumes "keeps_option m" and "\<And>x. keeps_option (f x)"
  shows "keeps_option (bind_py m f)"
  unfolding keeps_option_def
proof
  fix s
  obtain r s' where ms: "m s = (r, s')" by (cases "m s")
  with assms(1) have s': "use_inf_as_na s' = use_inf_as_na s"
    by (metis keeps_option_def snd_conv)
  show "use_inf_as_na (snd (bind_py m f s)) = use_inf_as_na s"
  proof (cases r)
    case (Inl e)
    with ms s' show ?thesis by (simp add: bind_py_def)
  next
    case (Inr x)
    with assms(2) [of x] ms s' show ?thesis by (simp add: bind_py_def keeps_option_def)
  qed
qed

lemma keeps_warn: "keeps_option (warn w)"
  unfolding keeps_option_def
proof
  fix s
  show "use_inf_as_na (snd (warn w s)) = use_inf_as_na s"
    by (cases "action_for (filters s) (fst w)") (simp_all add: warn_def)
qed

lemma keeps_warn_all: "keeps_option (warn_all ws)"
  by (induction ws) (simp_all add: keeps_return keeps_bind keeps_warn)

lemma keeps_modify:
  "(\<And>s. use_inf_as_na (g s) = use_inf_as_na s) \<Longrightarrow> keeps_option (modify_py g)"
  by (simp add: keeps_option_def modify_py_def)

lemma option_on_current: "use_inf_as_na (on_current f s) = use_inf_as_na s"
  by (simp add: on_current_def)

lemma option_add_figure: "use_inf_as_na (add_figure fig s) = use_inf_as_na s"
  by (simp add: add_figure_def)

lemma keeps_get: "keeps_option (get_py g)"
  by (simp add: keeps_option_def get_py_def)

lemma keeps_refusal: "keeps_option (refusal lib call)"
  by (simp add: keeps_option_def refusal_def split: option.split)

lemmas keeps_intros = keeps_bind keeps_if keeps_warn_all keeps_return keeps_raise keeps_lift
  keeps_modify option_on_current option_add_figure keeps_get keeps_refusal

lemma keeps_plot_columns: "keeps_option (plot_columns lib data plot_type num_cols axes ics)"
proof (induction ics)
  case Nil
  show ?case by (simp add: keeps_return)
next
  case (Cons ic ics)
  obtain i column where ic: "ic = (i, column)" by (cases ic)
  have "keeps_option (plot_column lib data plot_type num_cols axes i column)"
    unfolding plot_column_def sns_boxplot_def sns_histplot_def set_title_def
    by (intro keeps_intros)
  with Cons ic show ?case by (simp add: keeps_bind)
qed

lemma keeps_hide_cells: "keeps_option (hide_cells lib num_cols axes is)"
proof (induction "is")
  case Nil
  show ?case by (simp add: keeps_return)
next
  case (Cons i "is")
  have "keeps_option (hide_cell lib num_cols axes i)"
    unfolding hide_cell_def axis_off_def by (intro keeps_intros)
  with Cons show ?case by (simp add: keeps_bind)
qed

lemma keeps_plt_show: "keeps_option (plt_show lib)"
  unfolding plt_show_def by (intro keeps_intros) simp

lemma keeps_plt_tight_layout: "keeps_option (plt_tight_layout lib)"
  unfolding plt_tight_layout_def by (intro keeps_intros)

lemma keeps_create_subplots: "keeps_option (create_subplots lib data plot_type num_cols)"
  unfolding create_subplots_def plt_subplots_def plt_suptitle_def
  by (intro keeps_intros keeps_plot_columns keeps_hide_cells keeps_plt_show
        keeps_plt_tight_layout)

lemma keeps_create_heatmap: "keeps_option (create_heatmap lib data)"
  unfolding create_heatmap_def df_corr_def plt_figure_def sns_heatmap_def plt_title_def
  by (intro keeps_intros keeps_plt_show keeps_plt_tight_layout)

lemma keeps_py_print: "keeps_option (py_print x)"
  unfolding py_print_def by (intro keeps_intros) simp

lemma keeps_data_input: "keeps_option (data_input lib files csv)"
  unfolding data_input_def by (intro keeps_intros)

lemma warn_all_ignored:
  "filters s = (Ignore, None) # fl \<Longrightarrow> warn_all ws s = (Inr (), s)"
  by (induction ws) (simp_all add: return_py_def bind_py_def warn_def)

lemma analysis_steps_sets_option:
  assumes "filters s = (Ignore, None) # fl"
  shows "use_inf_as_na (snd (analysis_steps lib files csv num_cols s))"
proof -
  let ?rest = "\<lambda>u::unit.
     bind_py (data_input lib files csv) (\<lambda>data.
     bind_py (py_print [CHR 0x0A]) (\<lambda>_.
     bind_py (create_subplots lib data ''boxplot'' num_cols) (\<lambda>_.
     bind_py (py_print [CHR 0x0A, CHR 0x0A]) (\<lambda>_.
     bind_py (create_subplots lib data ''histplot'' num_cols) (\<lambda>_.
     bind_py (py_print [CHR 0x0A, CHR 0x0A]) (\<lambda>_.
     create_heatmap lib data))))))"
  have rest: "keeps_option (?rest ())"
    by (intro keeps_intros keeps_data_input keeps_py_print keeps_create_subplots
          keeps_create_heatmap)
  have "pd_set_option lib True s = (Inr (), s\<lparr>use_inf_as_na := True\<rparr>)"
    by (simp add: pd_set_option_def bind_py_def warn_all_ignored [OF assms] modify_py_def)
  then have "analysis_steps lib files csv num_cols s = ?rest () (s\<lparr>use_inf_as_na := True\<rparr>)"
    by (simp add: analysis_steps_def bind_py_def)
  with rest show ?thesis by (simp add: keeps_option_def)
qed

text \<open>
  C10.  However \<open>initial_analysis\<close> ends, by returning or by raising, the option
  \<open>mode.use_inf_as_na\<close> is on afterwards, whatever it was before: nothing puts the
  old value back.  The warning filters, in contrast, are as they were.
\<close>

theorem initial_analysis_leaves_option_set:
  "use_inf_as_na (snd (initial_analysis lib files csv num_cols s))
   \<and> filters (snd (initial_analysis lib files csv num_cols s)) = filters s"
proof -
  let ?inner = "s\<lparr>filters := (Ignore, None) # filters s\<rparr>"
  obtain r s' where run: "analysis_steps lib files csv num_cols ?inner = (r, s')"
    by (cases "analysis_steps lib files csv num_cols ?inner")
  have "filters ?inner = (Ignore, None) # filters s" by simp
  from analysis_steps_sets_option [OF this, of lib files csv num_cols] run
  have "use_inf_as_na s'" by simp
  with run show ?thesis
    by (simp add: initial_analysis_def catch_warnings_def simplefilter_def bind_py_def
        modify_py_def)
qed

section \<open>The filter changes no result\<close>

lemma related_stdout:
  "related s t \<Longrightarrow> related (s\<lparr>stdout := stdout s @ x\<rparr>) (t\<lparr>stdout := stdout t @ x\<rparr>)"
  by (simp add: related_def same_results_def)

lemma related_option:
  "related s t \<Longrightarrow> related (s\<lparr>use_inf_as_na := v\<rparr>) (t\<lparr>use_inf_as_na := v\<rparr>)"
  by (simp add: related_def same_results_def)

lemma sim_create_heatmap:
  assumes "refuses lib' = refuses lib"
  shows "sim (create_heatmap lib data) (create_heatmap lib' data)"
  unfolding create_heatmap_def df_corr_def plt_figure_def sns_heatmap_def plt_title_def
  by (intro sim_intros sim_plt_show sim_plt_tight_layout assms | assumption)+

lemma sim_analysis_steps:
  assumes "refuses lib' = refuses lib"
  shows "sim (analysis_steps lib files csv num_cols) (analysis_steps lib' files csv num_cols)"
  unfolding analysis_steps_def pd_set_option_def data_input_def py_print_def
  by (intro sim_intros sim_create_subplots sim_create_heatmap related_stdout related_option
        assms | assumption)+

text \<open>
  C8.  When warnings are not configured as errors, the run under
  \<open>catch_warnings\<close> and \<open>simplefilter('ignore')\<close> and the run without them end the
  same way (the same return or the same exception) with the same figures, printed
  lines and pandas option; they differ in the warnings shown only.
\<close>

theorem warning_filter_changes_no_result:
  assumes "non_fatal (filters s)"
  shows "fst (initial_analysis lib files csv num_cols s)
           = fst (unwrapped_analysis lib files csv num_cols s)
         \<and> same_results (snd (initial_analysis lib files csv num_cols s))
                        (snd (unwrapped_analysis lib files csv num_cols s))"
proof -
  let ?inner = "s\<lparr>filters := (Ignore, None) # filters s\<rparr>"
  from assms have "related ?inner s"
    by (simp add: related_def same_results_def non_fatal_def)
  with sim_analysis_steps [OF refl, of lib files csv num_cols]
  have "fst (analysis_steps lib files csv num_cols ?inner)
          = fst (analysis_steps lib files csv num_cols s)
        \<and> related (snd (analysis_steps lib files csv num_cols ?inner))
                   (snd (analysis_steps lib files csv num_cols s))"
    unfolding sim_def by blast
  then show ?thesis
    by (cases "analysis_steps lib files csv num_cols ?inner")
       (simp add: initial_analysis_def unwrapped_analysis_def catch_warnings_def
          simplefilter_def bind_py_def modify_py_def related_def same_results_def)
qed

lemma survey_run_returns:
  "fst (initial_analysis noisy disk ''survey.csv'' 2 fresh) = Inr ()"
  by code_simp

theorem warning_filter_changes_no_result_witness:
  "non_fatal (filters fresh)
   \<and> fst (initial_analysis noisy disk ''survey.csv'' 2 fresh) = Inr ()
   \<and> fst (unwrapped_analysis noisy disk ''survey.csv'' 2 fresh) = Inr ()
   \<and> same_results (snd (initial_analysis noisy disk ''survey.csv'' 2 fresh))
                  (snd (unwrapped_analysis noisy disk ''survey.csv'' 2 fresh))"
  using warning_filter_changes_no_result [OF non_fatal_fresh, of noisy disk "''survey.csv''" 2]
    non_fatal_fresh survey_run_returns
  by simp

text \<open>
  Without that condition the two runs differ: when the interpreter turns warnings
  into errors (\<open>python -W error\<close>), an advisory warning is fatal outside the filter
  and ignored under it, so the unwrapped run raises where the wrapped run returns.
\<close>

theorem fatal_warnings_differ:
  "fst (initial_analysis noisy disk ''survey.csv'' 2 (fresh\<lparr>filters := [(Error, None)]\<rparr>)) = Inr ()
   \<and> fst (unwrapped_analysis noisy disk ''survey.csv'' 2 (fresh\<lparr>filters := [(Error, None)]\<rparr>))
     = Inl (WarningAsError (RuntimeWarning, ''advisory''))"
  by code_simp

section \<open>The heatmap\<close>


lemma on_gca_new_figure [simp]: "on_gca f new_figure = new_figure\<lparr>grid := [[f new_axes]]\<rparr>"
  by (simp add: on_gca_def new_figure_def)


lemma current_add_figure [simp]: "current_figure (add_figure fig s) = fig"
  by (simp add: current_figure_def add_figure_def)

lemma option_add_figure_eq [simp]: "use_inf_as_na (add_figure fig s) = use_inf_as_na s"
  by (simp add: add_figure_def)

lemma plt_tight_layout_quiet:
  "plt_tight_layout (quiet lib) s
   = (case refuses lib (TightLayout (current_figure s)) (use_inf_as_na s) of
        None \<Rightarrow> (Inr (), on_current (\<lambda>fig. fig\<lparr>tight := True\<rparr>) s)
      | Some e \<Rightarrow> (Inl e, s))"
  by (simp add: plt_tight_layout_def py_defs get_py_def refusal_def split: option.split)

lemma plt_show_quiet:
  "plt_show (quiet lib) s
   = (Inr (), s\<lparr>figures := map (\<lambda>fig. fig\<lparr>shown := True\<rparr>) (figures s)\<rparr>)"
  by (simp add: plt_show_def py_defs)



lemma wf_remarks: "wf_table remarks"
  by (simp add: wf_table_def remarks_def)







section \<open>Grids in row-major order\<close>

lemma concat_update:
  assumes "list_all (\<lambda>row. length row = w) g" and "r < length g" and "c < w"
  shows "concat (g[r := (g ! r)[c := v]]) = (concat g)[r * w + c := v]"
  using assms
proof (induction g arbitrary: r)
  case Nil
  then show ?case by simp
next
  case (Cons row g)
  show ?case
  proof (cases r)
    case 0
    with Cons.prems show ?thesis by (simp add: list_update_append1)
  next
    case (Suc r')
    with Cons.prems Cons.IH [of r'] show ?thesis by (simp add: list_update_append)
  qed
qed

lemma concat_nth:
  assumes "list_all (\<lambda>row. length row = w) g" and "r < length g" and "c < w"
  shows "g ! r ! c = concat g ! (r * w + c)"
  using assms
proof (induction g arbitrary: r)
  case Nil
  then show ?case by simp
next
  case (Cons row g)
  show ?case
  proof (cases r)
    case 0
    with Cons.prems show ?thesis by (simp add: nth_append)
  next
    case (Suc r')
    with Cons.prems Cons.IH [of r'] show ?thesis by (simp add: nth_append)
  qed
qed

lemma regular_update:
  assumes "regular r w g"
  shows "regular r w (g[i := (g ! i)[j := v]])"
proof (cases "i < length g")
  case True
  with assms show ?thesis
    by (auto simp: regular_def list_all_length nth_list_update)
next
  case False
  with assms show ?thesis by (simp add: list_update_beyond)
qed

lemma length_concat_regular: "regular r w g \<Longrightarrow> length (concat g) = r * w"
proof -
  have "list_all (\<lambda>row. length row = w) g \<Longrightarrow> length (concat g) = length g * w"
    by (induction g) simp_all
  then show "regular r w g \<Longrightarrow> length (concat g) = r * w"
    by (simp add: regular_def)
qed

lemma update_axes_flat:
  assumes "regular r w (grid fig)" and "i < r * w"
  shows "regular r w (grid (update_axes (i div w, i mod w) f fig))"
    and "concat (grid (update_axes (i div w, i mod w) f fig))
         = (concat (grid fig))[i := f (concat (grid fig) ! i)]"
    and "suptitle (update_axes (i div w, i mod w) f fig) = suptitle fig"
    and "tight (update_axes (i div w, i mod w) f fig) = tight fig"
    and "shown (update_axes (i div w, i mod w) f fig) = shown fig"
proof -
  from assms(2) have w: "0 < w" by (cases w) simp_all
  from assms have row: "i div w < length (grid fig)"
    by (simp add: regular_def less_mult_imp_div_less)
  from w have col: "i mod w < w" by simp
  from assms(1) have all: "list_all (\<lambda>row. length row = w) (grid fig)"
    by (simp add: regular_def)
  show "regular r w (grid (update_axes (i div w, i mod w) f fig))"
    using assms(1) by (simp add: update_axes_def regular_update)
  show "concat (grid (update_axes (i div w, i mod w) f fig))
        = (concat (grid fig))[i := f (concat (grid fig) ! i)]"
    by (simp add: update_axes_def concat_update [OF all row col] concat_nth [OF all row col])
  show "suptitle (update_axes (i div w, i mod w) f fig) = suptitle fig"
    and "tight (update_axes (i div w, i mod w) f fig) = tight fig"
    and "shown (update_axes (i div w, i mod w) f fig) = shown fig"
    by (simp_all add: update_axes_def)
qed

lemma draw_column_flat:
  assumes "regular r w (grid fig)" and "i < r * w" and "concat (grid fig) ! i = new_axes"
  shows "regular r w (grid (draw_column plot_type w i c fig))"
    and "concat (grid (draw_column plot_type w i c fig))
         = (concat (grid fig))[i := chart_axes plot_type c]"
    and "suptitle (draw_column plot_type w i c fig) = suptitle fig"
    and "tight (draw_column plot_type w i c fig) = tight fig"
    and "shown (draw_column plot_type w i c fig) = shown fig"
proof -
  from assms(1,2) have len: "i < length (concat (grid fig))"
    by (simp add: length_concat_regular)
  note flat = update_axes_flat [OF _ assms(2)]
  show "regular r w (grid (draw_column plot_type w i c fig))"
    by (simp add: draw_column_def flat assms(1))
  show "concat (grid (draw_column plot_type w i c fig))
        = (concat (grid fig))[i := chart_axes plot_type c]"
    using len
    by (simp add: draw_column_def flat assms(1,3) chart_axes_def chart_for_def new_axes_def)
  show "suptitle (draw_column plot_type w i c fig) = suptitle fig"
    and "tight (draw_column plot_type w i c fig) = tight fig"
    and "shown (draw_column plot_type w i c fig) = shown fig"
    by (simp_all add: draw_column_def flat assms(1))
qed


lemma hide_axes_flat:
  assumes "regular r w (grid fig)" and "i < r * w" and "concat (grid fig) ! i = new_axes"
  shows "regular r w (grid (hide_axes w i fig))"
    and "concat (grid (hide_axes w i fig)) = (concat (grid fig))[i := hidden_axes]"
    and "suptitle (hide_axes w i fig) = suptitle fig"
    and "tight (hide_axes w i fig) = tight fig"
    and "shown (hide_axes w i fig) = shown fig"
  using assms
  by (simp_all add: hide_axes_def update_axes_flat hidden_axes_def new_axes_def)

lemma draw_columns_flat:
  assumes "regular r w (grid fig)"
    and "concat (grid fig) = pre @ replicate m new_axes"
    and "length pre = k" and "length cs \<le> m" and "k + m = r * w"
  shows "regular r w (grid (foldl (\<lambda>f (i, c). draw_column plot_type w i c f) fig (enumerate k cs)))
    \<and> concat (grid (foldl (\<lambda>f (i, c). draw_column plot_type w i c f) fig (enumerate k cs)))
      = pre @ map (chart_axes plot_type) cs @ replicate (m - length cs) new_axes
    \<and> suptitle (foldl (\<lambda>f (i, c). draw_column plot_type w i c f) fig (enumerate k cs))
      = suptitle fig
    \<and> tight (foldl (\<lambda>f (i, c). draw_column plot_type w i c f) fig (enumerate k cs)) = tight fig
    \<and> shown (foldl (\<lambda>f (i, c). draw_column plot_type w i c f) fig (enumerate k cs)) = shown fig"
  using assms
proof (induction cs arbitrary: fig pre k m)
  case Nil
  then show ?case by simp
next
  case (Cons c cs)
  from Cons.prems(4) obtain m' where m: "m = Suc m'" by (cases m) simp_all
  let ?fig = "draw_column plot_type w k c fig"
  from Cons.prems(5) m have k: "k < r * w" by simp
  from Cons.prems(2,3) m have at_k: "concat (grid fig) ! k = new_axes"
    by (simp add: nth_append)
  note step = draw_column_flat [OF Cons.prems(1) k at_k, of plot_type c]
  have flat: "concat (grid ?fig) = (pre @ [chart_axes plot_type c]) @ replicate m' new_axes"
    using Cons.prems(2,3) m by (simp add: step(2) list_update_append)
  have "length (pre @ [chart_axes plot_type c]) = Suc k"
    using Cons.prems(3) by simp
  moreover have "length cs \<le> m'" using Cons.prems(4) m by simp
  moreover have "Suc k + m' = r * w" using Cons.prems(5) m by simp
  ultimately show ?case
    using Cons.IH [OF step(1) flat, of "Suc k"] step(3,4,5) m by simp
qed

lemma hide_cells_flat:
  assumes "regular r w (grid fig)"
    and "concat (grid fig) = pre @ replicate m new_axes"
    and "length pre = n" and "n + m = r * w"
  shows "regular r w (grid (foldl (\<lambda>f i. hide_axes w i f) fig [n..<n + m]))
    \<and> concat (grid (foldl (\<lambda>f i. hide_axes w i f) fig [n..<n + m]))
      = pre @ replicate m hidden_axes
    \<and> suptitle (foldl (\<lambda>f i. hide_axes w i f) fig [n..<n + m]) = suptitle fig
    \<and> tight (foldl (\<lambda>f i. hide_axes w i f) fig [n..<n + m]) = tight fig
    \<and> shown (foldl (\<lambda>f i. hide_axes w i f) fig [n..<n + m]) = shown fig"
  using assms
proof (induction m arbitrary: fig pre n)
  case 0
  then show ?case by simp
next
  case (Suc m)
  let ?fig = "hide_axes w n fig"
  from Suc.prems(4) have n: "n < r * w" by simp
  from Suc.prems(2,3) have at_n: "concat (grid fig) ! n = new_axes"
    by (simp add: nth_append)
  note step = hide_axes_flat [OF Suc.prems(1) n at_n]
  have flat: "concat (grid ?fig) = (pre @ [hidden_axes]) @ replicate m new_axes"
    using Suc.prems(2,3) by (simp add: step(2) list_update_append)
  have len: "length (pre @ [hidden_axes]) = Suc n" using Suc.prems(3) by simp
  have sum: "Suc n + m = r * w" using Suc.prems(4) by simp
  have upt: "[n..<n + Suc m] = n # [Suc n..<Suc n + m]"
    by (simp add: upt_conv_Cons)
  from Suc.IH [OF step(1) flat len sum] step(3,4,5) show ?case
    unfolding upt by (simp add: replicate_app_Cons_same)
qed

lemma concat_replicate_replicate:
  "concat (replicate r (replicate w x)) = replicate (r * w) x"
  by (induction r) (simp_all add: replicate_add)

section \<open>The two loops on a grid of at least two rows and two columns\<close>

lemma on_current_comp: "on_current f (on_current g s) = on_current (\<lambda>fig. f (g fig)) s"
  by (simp add: on_current_def)

lemma on_current_id: "figures s \<noteq> [] \<Longrightarrow> on_current (\<lambda>fig. fig) s = s"
  by (simp add: on_current_def)

lemma figures_on_current: "figures (on_current f s) \<noteq> []"
  by (simp add: on_current_def)

lemma py_index_nat: "j < n \<Longrightarrow> py_index n (int j) = Inr j"
  by (simp add: py_index_def flip: zmod_int)

lemma axes_getitem_cell:
  assumes "i < r * w"
  shows "axes_getitem (Axes2D r w) (int (i div w)) (int (i mod w)) = Inr (i div w, i mod w)"
proof -
  from assms have w: "0 < w" by (cases w) simp_all
  from assms have "i div w < r" by (simp add: less_mult_imp_div_less)
  moreover from w have "i mod w < w" by simp
  ultimately show ?thesis by (simp add: py_index_nat)
qed

lemma cell_of_index:
  assumes "i < r * w"
  shows "floordiv (int i) (int w) = Inr (int (i div w))"
    and "pymod (int i) (int w) = Inr (int (i mod w))"
proof -
  from assms have w: "w \<noteq> 0" by (cases w) simp_all
  then show "floordiv (int i) (int w) = Inr (int (i div w))"
    by (simp add: floordiv_def zdiv_int)
  from w show "pymod (int i) (int w) = Inr (int (i mod w))"
    by (simp add: pymod_def zmod_int)
qed

text \<open>
  One round of the first loop: the chart and the title when the library accepts the
  chart call, the library's exception and an untouched figure when it refuses.
\<close>

lemma plot_column_drawn:
  assumes "getitem data (name c) = Inr (Series c)" and "i < r * w"
    and "draws lib (use_inf_as_na s) plot_type c"
  shows "plot_column (quiet lib) data plot_type (int w) (Axes2D r w) i (name c) s
         = (Inr (), on_current (draw_column plot_type w i c) s)"
proof -
  from assms(3)
  have box: "plot_type = ''boxplot'' \<Longrightarrow>
             refuses lib (Boxplot (Series c)) (use_inf_as_na s) = None"
    and hist: "plot_type = ''histplot'' \<Longrightarrow>
               refuses lib (Histplot (Series c)) (use_inf_as_na s) = None"
    by (simp_all add: draws_def chart_refusal_def)
  show ?thesis
    unfolding plot_column_def sns_boxplot_def sns_histplot_def set_title_def draw_column_def
    by (simp add: cell_of_index [OF assms(2)] axes_getitem_cell [OF assms(2)] assms(1)
        py_defs on_current_comp refusal_def box hist del: axes_getitem.simps)
qed

lemma plot_column_refused:
  assumes "getitem data (name c) = Inr (Series c)" and "i < r * w"
    and "\<not> draws lib (use_inf_as_na s) plot_type c"
  shows "\<exists>e. plot_column (quiet lib) data plot_type (int w) (Axes2D r w) i (name c) s
              = (Inl e, s)"
proof -
  from assms(3) obtain e where "chart_refusal lib (use_inf_as_na s) plot_type c = Some e"
    by (auto simp: draws_def)
  then have "plot_column (quiet lib) data plot_type (int w) (Axes2D r w) i (name c) s
             = (Inl e, s)"
    unfolding plot_column_def sns_boxplot_def sns_histplot_def set_title_def
    by (simp add: cell_of_index [OF assms(2)] axes_getitem_cell [OF assms(2)] assms(1)
        py_defs chart_refusal_def refusal_def del: axes_getitem.simps split: if_splits)
  then show ?thesis ..
qed

text \<open>
  The first loop draws the columns up to the first one that the library refuses.
\<close>

lemma plot_columns_quiet:
  assumes "distinct (map name (cols data))" and "set cs \<subseteq> set (cols data)"
    and "k + length cs \<le> r * w" and "figures s \<noteq> []"
  shows "\<exists>res. plot_columns (quiet lib) data plot_type (int w) (Axes2D r w)
                  (enumerate k (map name cs)) s
                = (res, on_current (\<lambda>fig. foldl (\<lambda>f (i, c). draw_column plot_type w i c f) fig
                          (enumerate k (takeWhile (draws lib (use_inf_as_na s) plot_type) cs))) s)
              \<and> (res = Inr () \<longleftrightarrow> takeWhile (draws lib (use_inf_as_na s) plot_type) cs = cs)"
  using assms(2,3,4)
proof (induction cs arbitrary: k s)
  case Nil
  then show ?case by (simp add: on_current_id return_py_def)
next
  case (Cons c cs)
  from Cons.prems(1) have "c \<in> set (cols data)" by simp
  with assms(1) have gi: "getitem data (name c) = Inr (Series c)" by (rule getitem_unique)
  from Cons.prems(2) have k: "k < r * w" by simp
  from Cons.prems(1) have sub: "set cs \<subseteq> set (cols data)" by simp
  from Cons.prems(2) have le: "Suc k + length cs \<le> r * w" by simp
  show ?case
  proof (cases "draws lib (use_inf_as_na s) plot_type c")
    case True
    define s' where "s' = on_current (draw_column plot_type w k c) s"
    have opt: "use_inf_as_na s' = use_inf_as_na s" by (simp add: s'_def option_on_current)
    have fig: "figures s' \<noteq> []" by (simp add: s'_def figures_on_current)
    from Cons.IH [OF sub le fig] obtain res where
      rest: "plot_columns (quiet lib) data plot_type (int w) (Axes2D r w)
               (enumerate (Suc k) (map name cs)) s'
             = (res, on_current (\<lambda>fig. foldl (\<lambda>f (i, c). draw_column plot_type w i c f) fig
                       (enumerate (Suc k) (takeWhile (draws lib (use_inf_as_na s) plot_type) cs))) s')"
      and all: "res = Inr () \<longleftrightarrow> takeWhile (draws lib (use_inf_as_na s) plot_type) cs = cs"
      unfolding opt by blast
    from True rest
    have "plot_columns (quiet lib) data plot_type (int w) (Axes2D r w)
            (enumerate k (map name (c # cs))) s
          = (res, on_current (\<lambda>fig. foldl (\<lambda>f (i, c). draw_column plot_type w i c f) fig
                    (enumerate k (takeWhile (draws lib (use_inf_as_na s) plot_type) (c # cs)))) s)"
      by (simp add: bind_py_def plot_column_drawn [OF gi k True] s'_def [symmetric])
         (simp add: s'_def on_current_comp)
    with True all show ?thesis by simp
  next
    case False
    from plot_column_refused [OF gi k False] obtain e where
      "plot_column (quiet lib) data plot_type (int w) (Axes2D r w) k (name c) s = (Inl e, s)"
      by blast
    with False Cons.prems(3) show ?thesis
      by (simp add: bind_py_def on_current_id)
  qed
qed

lemma hide_cell_quiet:
  assumes "i < r * w"
  shows "hide_cell (quiet lib) (int w) (Axes2D r w) (int i) s
         = (Inr (), on_current (hide_axes w i) s)"
  unfolding hide_cell_def axis_off_def hide_axes_def
  by (simp add: cell_of_index [OF assms] axes_getitem_cell [OF assms] py_defs
      del: axes_getitem.simps)

lemma hide_cells_quiet:
  assumes "list_all (\<lambda>i. i < r * w) is" and "figures s \<noteq> []"
  shows "hide_cells (quiet lib) (int w) (Axes2D r w) (map int is) s
         = (Inr (), on_current (\<lambda>fig. foldl (\<lambda>f i. hide_axes w i f) fig is) s)"
  using assms
proof (induction "is" arbitrary: s)
  case Nil
  then show ?case by (simp add: on_current_id return_py_def)
next
  case (Cons i "is")
  from Cons.prems(1) have i: "i < r * w" and rest: "list_all (\<lambda>i. i < r * w) is" by simp_all
  show ?case
    by (simp add: bind_py_def hide_cell_quiet [OF i] Cons.IH [OF rest figures_on_current]
        on_current_comp)
qed

text \<open>Hiding cells changes no title.\<close>

lemma hide_axes_keeps_titles:
  assumes "regular r w (grid fig)" and "list_all (\<lambda>i. i < r * w) is"
  shows "regular r w (grid (foldl (\<lambda>f i. hide_axes w i f) fig is))
         \<and> map title (concat (grid (foldl (\<lambda>f i. hide_axes w i f) fig is)))
           = map title (concat (grid fig))"
  using assms
proof (induction "is" arbitrary: fig)
  case Nil
  then show ?case by simp
next
  case (Cons i "is")
  from Cons.prems(2) have i: "i < r * w" and rest: "list_all (\<lambda>i. i < r * w) is" by simp_all
  note step = update_axes_flat [OF Cons.prems(1) i, of "\<lambda>a. a\<lparr>axis_on := False\<rparr>"]
  have reg: "regular r w (grid (hide_axes w i fig))"
    using step(1) by (simp add: hide_axes_def)
  have "map title (concat (grid (hide_axes w i fig)))
        = (map title (concat (grid fig)))[i := title (concat (grid fig) ! i)]"
    using step(2) by (simp add: hide_axes_def map_update)
  also have "\<dots> = map title (concat (grid fig))"
  proof (cases "i < length (concat (grid fig))")
    case True
    then have "title (concat (grid fig) ! i) = map title (concat (grid fig)) ! i" by simp
    then show ?thesis by (simp only: list_update_id)
  next
    case False
    then show ?thesis by (simp add: list_update_beyond)
  qed
  finally have titles: "map title (concat (grid (hide_axes w i fig)))
                        = map title (concat (grid fig))" .
  from Cons.IH [OF reg rest] titles show ?case by simp
qed

lemma upto_nat: "[int n..int m - 1] = map int [n..<m]"
proof (induction "m - n" arbitrary: n)
  case 0
  then show ?case by simp
next
  case (Suc d)
  then have lt: "n < m" by simp
  from Suc(1) [of "Suc n"] Suc(2) have "[int (Suc n)..int m - 1] = map int [Suc n..<m]" by simp
  moreover from lt have "[int n..int m - 1] = int n # [int n + 1..int m - 1]"
    by (simp add: upto_rec1)
  ultimately show ?case using lt by (simp add: upt_conv_Cons add.commute)
qed

lemma rows_bounds:
  assumes "0 < (w::int)"
  shows "n \<le> (n + w - 1) div w * w" and "(n + w - 1) div w * w < n + w"
proof -
  have "(n + w - 1) div w * w + (n + w - 1) mod w = n + w - 1"
    by (rule div_mult_mod_eq)
  moreover from assms have "0 \<le> (n + w - 1) mod w" and "(n + w - 1) mod w < w"
    by simp_all
  ultimately show "n \<le> (n + w - 1) div w * w" and "(n + w - 1) div w * w < n + w"
    by linarith+
qed

lemma plt_suptitle_quiet:
  "plt_suptitle (quiet lib) t s = (Inr (), on_current (\<lambda>fig. fig\<lparr>suptitle := Some t\<rparr>) s)"
  by (simp add: plt_suptitle_def py_defs)

lemma figures_add_figure: "figures (add_figure fig s) \<noteq> []"
  by (simp add: add_figure_def)

lemma takeWhile_prefix:
  assumes "\<forall>j \<le> i. P (xs ! j)" and "i < length xs"
  shows "i < length (takeWhile P xs)" and "takeWhile P xs ! i = xs ! i"
proof -
  show len: "i < length (takeWhile P xs)"
  proof (rule ccontr)
    assume "\<not> i < length (takeWhile P xs)"
    then have le: "length (takeWhile P xs) \<le> i" by simp
    with assms(2) have "length (takeWhile P xs) < length xs" by simp
    then have "\<not> P (xs ! length (takeWhile P xs))" by (rule nth_length_takeWhile)
    with assms(1) le show False by blast
  qed
  then show "takeWhile P xs ! i = xs ! i" by (rule takeWhile_nth)
qed

text \<open>
  A run of \<open>create_subplots\<close> on a grid of at least two rows and two columns, with a
  quiet library.  The first loop draws the columns up to the first one that the
  library refuses and leaves the figure \<open>fig1\<close>; when it refuses none, the second
  loop hides the remaining cells, which gives \<open>fig3\<close>, and the run ends with the
  layout call, which the library may refuse, and the display.
\<close>

lemma create_subplots_run_quiet:
  fixes T :: table and W :: nat and lib :: library and s :: pystate and plot_type :: string
  defines "nums \<equiv> filter numeric (cols T)"
  defines "R \<equiv> nat ((int (length nums) + int W - 1) div int W)"
  defines "pre \<equiv> takeWhile (draws lib (use_inf_as_na s) plot_type) nums"
  assumes wf: "wf_table T" and w2: "2 \<le> W" and wn: "W < length nums"
  shows "\<exists>fig1 fig3.
           regular R W (grid fig1)
         \<and> concat (grid fig1)
           = map (chart_axes plot_type) pre @ replicate (R * W - length pre) new_axes
         \<and> regular R W (grid fig3)
         \<and> map title (concat (grid fig3)) = map title (concat (grid fig1))
         \<and> (pre = nums \<longrightarrow>
              concat (grid fig3)
              = map (chart_axes plot_type) nums @ replicate (R * W - length nums) hidden_axes)
         \<and> length nums \<le> R * W \<and> R * W < length nums + W
         \<and> ((pre \<noteq> nums
              \<and> (\<exists>e. create_subplots (quiet lib) T plot_type (int W) s
                       = (Inl e, add_figure fig1 s)))
            \<or> (pre = nums
              \<and> create_subplots (quiet lib) T plot_type (int W) s
                = (case refuses lib (TightLayout fig3) (use_inf_as_na s) of
                     Some e \<Rightarrow> (Inl e, add_figure fig3 s)
                   | None \<Rightarrow>
                       (Inr (), s\<lparr>figures := map (\<lambda>f. f\<lparr>shown := True\<rparr>) (figures s)
                                                 @ [fig3\<lparr>tight := True, shown := True\<rparr>]\<rparr>))))"
proof -
  define n where "n = length nums"
  define labels where "labels = map name nums"
  define t where "t = (if plot_type = ''boxplot'' then ''Boxplot'' else ''Histogram'') @ '' Analysis''"
  define fig0 where "fig0 = new_figure\<lparr>grid := replicate R (replicate W new_axes)\<rparr>"
  define fig1 where
    "fig1 = foldl (\<lambda>f (i, c). draw_column plot_type W i c f) fig0 (enumerate 0 pre)"
  define fig2 where "fig2 = fig1\<lparr>suptitle := Some t\<rparr>"
  define fig3 where "fig3 = foldl (\<lambda>f i. hide_axes W i f) fig2 [n..<R * W]"
  from wf have d: "distinct (map name (cols T))" by (simp add: wf_table_def)
  from w2 have w0: "0 < int W" by simp
  let ?q = "(int n + int W - 1) div int W"
  from rows_bounds [OF w0, of "int n"] have lo: "int n \<le> ?q * int W" and hi: "?q * int W < int n + int W"
    by simp_all
  from wn lo have "1 * int W < ?q * int W" by (simp add: n_def)
  with w0 have "1 < ?q" by (simp only: mult_less_cancel_right)
  then have "2 \<le> ?q" by simp
  then have R2: "2 \<le> R" and q: "?q = int R" by (simp_all add: R_def n_def)
  from lo q have nRW: "n \<le> R * W" by (metis of_nat_le_iff of_nat_mult)
  from hi q have RWn: "R * W < n + W" by (metis of_nat_less_iff of_nat_mult of_nat_add)
  have columns: "numeric_columns T = Inr labels"
    unfolding labels_def nums_def by (rule numeric_columns_wf [OF d])
  have rows: "floordiv (int (length labels) + int W - 1) (int W) = Inr (int R)"
    using w0 q by (simp add: floordiv_def labels_def n_def)
  have grid: "plt_subplots (quiet lib) (int R) (int W) s = (Inr (Axes2D R W), add_figure fig0 s)"
    using plt_subplots_quiet [of "int R" "int W" lib s] R2 w2 by (simp add: squeeze_def fig0_def)
  have sub: "set nums \<subseteq> set (cols T)" by (auto simp: nums_def)
  from plot_columns_quiet [OF d sub, of 0 R W "add_figure fig0 s" lib plot_type] nRW
  obtain res where loop1: "plot_columns (quiet lib) T plot_type (int W) (Axes2D R W)
                             (enumerate 0 labels) (add_figure fig0 s)
                           = (res, add_figure fig1 s)"
    and all: "res = Inr () \<longleftrightarrow> pre = nums"
    by (auto simp: n_def labels_def fig1_def pre_def figures_add_figure)
  have range: "[int (length labels)..int R * int W - 1] = map int [n..<R * W]"
    using upto_nat [of n "R * W"] by (simp add: labels_def n_def)
  have below: "list_all (\<lambda>i. i < R * W) [n..<R * W]" by (simp add: list_all_iff)
  have loop2: "hide_cells (quiet lib) (int W) (Axes2D R W) (map int [n..<R * W])
                 (add_figure fig2 s) = (Inr (), add_figure fig3 s)"
    using hide_cells_quiet [OF below, of "add_figure fig2 s" lib]
    by (simp add: fig3_def figures_add_figure)
  have start: "create_subplots (quiet lib) T plot_type (int W) s
        = bind_py (plot_columns (quiet lib) T plot_type (int W) (Axes2D R W) (enumerate 0 labels))
            (\<lambda>_. bind_py (plt_suptitle (quiet lib) t)
            (\<lambda>_. bind_py (hide_cells (quiet lib) (int W) (Axes2D R W) (map int [n..<R * W]))
            (\<lambda>_. bind_py (plt_tight_layout (quiet lib)) (\<lambda>_. plt_show (quiet lib)))))
            (add_figure fig0 s)"
    unfolding create_subplots_def t_def [symmetric]
    by (simp add: columns rows range grid bind_py_def return_py_def raise_py_def lift_py_def)
  have reg0: "regular R W (grid fig0)"
    by (simp add: fig0_def regular_def new_figure_def list_all_length)
  have flat0: "concat (grid fig0) = [] @ replicate (R * W) new_axes"
    by (simp add: fig0_def new_figure_def concat_replicate_replicate)
  have "length pre \<le> length nums" unfolding pre_def by (rule length_takeWhile_le)
  with nRW have preRW: "length pre \<le> R * W" by (simp add: n_def)
  from draw_columns_flat [OF reg0 flat0, of 0 pre plot_type] preRW
  have reg1: "regular R W (grid fig1)"
    and flat1: "concat (grid fig1)
                = map (chart_axes plot_type) pre @ replicate (R * W - length pre) new_axes"
    by (simp_all add: fig1_def)
  have reg2: "regular R W (grid fig2)" and flat2: "concat (grid fig2) = concat (grid fig1)"
    using reg1 by (simp_all add: fig2_def)
  from hide_axes_keeps_titles [OF reg2 below]
  have reg3: "regular R W (grid fig3)"
    and titles3: "map title (concat (grid fig3)) = map title (concat (grid fig1))"
    by (simp_all add: fig3_def flat2)
  have flat3: "concat (grid fig3)
               = map (chart_axes plot_type) nums @ replicate (R * W - length nums) hidden_axes"
    if full: "pre = nums"
  proof -
    have flat2': "concat (grid fig2)
                  = map (chart_axes plot_type) nums @ replicate (R * W - n) new_axes"
      using flat1 by (simp add: flat2 full n_def)
    have len: "length (map (chart_axes plot_type) nums) = n" by (simp add: n_def)
    have sum: "n + (R * W - n) = R * W" using nRW by simp
    from hide_cells_flat [OF reg2 flat2' len sum]
    have "concat (grid fig3)
          = map (chart_axes plot_type) nums @ replicate (R * W - n) hidden_axes"
      unfolding sum fig3_def [symmetric] by simp
    then show ?thesis by (simp add: n_def)
  qed
  have outcome: "(pre \<noteq> nums
              \<and> (\<exists>e. create_subplots (quiet lib) T plot_type (int W) s
                       = (Inl e, add_figure fig1 s)))
            \<or> (pre = nums
              \<and> create_subplots (quiet lib) T plot_type (int W) s
                = (case refuses lib (TightLayout fig3) (use_inf_as_na s) of
                     Some e \<Rightarrow> (Inl e, add_figure fig3 s)
                   | None \<Rightarrow>
                       (Inr (), s\<lparr>figures := map (\<lambda>f. f\<lparr>shown := True\<rparr>) (figures s)
                                                 @ [fig3\<lparr>tight := True, shown := True\<rparr>]\<rparr>)))"
  proof (cases res)
    case (Inl e)
    with loop1 have "create_subplots (quiet lib) T plot_type (int W) s = (Inl e, add_figure fig1 s)"
      unfolding start by (simp add: bind_py_def)
    moreover from Inl all have "pre \<noteq> nums" by simp
    ultimately show ?thesis by blast
  next
    case (Inr u)
    with all have full: "pre = nums" by simp
    from Inr loop1 loop2
    have run: "create_subplots (quiet lib) T plot_type (int W) s
               = bind_py (plt_tight_layout (quiet lib)) (\<lambda>_. plt_show (quiet lib))
                   (add_figure fig3 s)"
      unfolding start
      by (simp add: bind_py_def plt_suptitle_quiet fig2_def)
    have "create_subplots (quiet lib) T plot_type (int W) s
          = (case refuses lib (TightLayout fig3) (use_inf_as_na s) of
               Some e \<Rightarrow> (Inl e, add_figure fig3 s)
             | None \<Rightarrow>
                 (Inr (), s\<lparr>figures := map (\<lambda>f. f\<lparr>shown := True\<rparr>) (figures s)
                                           @ [fig3\<lparr>tight := True, shown := True\<rparr>]\<rparr>))"
    proof (cases "refuses lib (TightLayout fig3) (use_inf_as_na s)")
      case None
      with run have "create_subplots (quiet lib) T plot_type (int W) s
            = plt_show (quiet lib) (add_figure (fig3\<lparr>tight := True\<rparr>) s)"
        by (simp add: bind_py_def plt_tight_layout_quiet)
      with None show ?thesis by (simp add: plt_show_quiet add_figure_def)
    next
      case (Some e)
      with run show ?thesis by (simp add: bind_py_def plt_tight_layout_quiet)
    qed
    with full show ?thesis by blast
  qed
  from reg1 flat1 reg3 titles3 flat3 nRW RWn outcome show ?thesis
    unfolding n_def by (intro exI [of _ fig1] exI [of _ fig3] conjI impI) assumption+
qed

text \<open>
  The figure that \<open>create_subplots\<close> leaves, whether it returns or a library call
  raises on the way: it is a new figure, its grid has \<open>ceil(n / w)\<close> rows of \<open>w\<close>
  cells, and the cell of every column that was reached carries the capitalized name
  of the column.
\<close>

lemma create_subplots_titles_quiet:
  fixes T :: table and W :: nat
  defines "nums \<equiv> filter numeric (cols T)"
  defines "R \<equiv> nat ((int (length nums) + int W - 1) div int W)"
  assumes wf: "wf_table T" and w2: "2 \<le> W" and wn: "W < length nums"
    and i: "i < length nums"
    and reached: "\<forall>j \<le> i. draws lib (use_inf_as_na s) plot_type (nums ! j)"
  shows "\<exists>fig. last (figures (snd (create_subplots (quiet lib) T plot_type (int W) s))) = fig
           \<and> length (figures (snd (create_subplots (quiet lib) T plot_type (int W) s)))
             = Suc (length (figures s))
           \<and> regular R W (grid fig) \<and> i < R * W
           \<and> title (concat (grid fig) ! i) = capitalize (name (nums ! i))"
proof -
  define pre where "pre = takeWhile (draws lib (use_inf_as_na s) plot_type) nums"
  from create_subplots_run_quiet [where lib = lib and s = s and plot_type = plot_type,
      OF wf w2 wn [unfolded nums_def]]
  obtain fig1 fig3 where reg1: "regular R W (grid fig1)"
    and flat1: "concat (grid fig1)
                = map (chart_axes plot_type) pre @ replicate (R * W - length pre) new_axes"
    and reg3: "regular R W (grid fig3)"
    and titles3: "map title (concat (grid fig3)) = map title (concat (grid fig1))"
    and nRW: "length nums \<le> R * W"
    and outcome: "(\<exists>e. create_subplots (quiet lib) T plot_type (int W) s
                        = (Inl e, add_figure fig1 s))
            \<or> create_subplots (quiet lib) T plot_type (int W) s
                = (case refuses lib (TightLayout fig3) (use_inf_as_na s) of
                     Some e \<Rightarrow> (Inl e, add_figure fig3 s)
                   | None \<Rightarrow>
                       (Inr (), s\<lparr>figures := map (\<lambda>f. f\<lparr>shown := True\<rparr>) (figures s)
                                                 @ [fig3\<lparr>tight := True, shown := True\<rparr>]\<rparr>))"
    unfolding nums_def R_def pre_def by blast
  from i nRW have iRW: "i < R * W" by simp
  from takeWhile_prefix [OF reached i]
  have ipre: "i < length pre" and same: "pre ! i = nums ! i" by (simp_all add: pre_def)
  from flat1 ipre same have title1: "title (concat (grid fig1) ! i) = capitalize (name (nums ! i))"
    by (simp add: nth_append chart_axes_def)
  from reg3 iRW have len3: "i < length (concat (grid fig3))" by (simp add: length_concat_regular)
  from reg1 iRW have len1: "i < length (concat (grid fig1))" by (simp add: length_concat_regular)
  have "title (concat (grid fig3) ! i) = map title (concat (grid fig3)) ! i"
    using len3 by simp
  also have "\<dots> = title (concat (grid fig1) ! i)"
    unfolding titles3 using len1 by simp
  finally have title3: "title (concat (grid fig3) ! i) = capitalize (name (nums ! i))"
    by (simp add: title1)
  from outcome show ?thesis
  proof
    assume "\<exists>e. create_subplots (quiet lib) T plot_type (int W) s = (Inl e, add_figure fig1 s)"
    with reg1 title1 iRW show ?thesis by (auto simp: add_figure_def)
  next
    assume "create_subplots (quiet lib) T plot_type (int W) s
            = (case refuses lib (TightLayout fig3) (use_inf_as_na s) of
                 Some e \<Rightarrow> (Inl e, add_figure fig3 s)
               | None \<Rightarrow>
                   (Inr (), s\<lparr>figures := map (\<lambda>f. f\<lparr>shown := True\<rparr>) (figures s)
                                             @ [fig3\<lparr>tight := True, shown := True\<rparr>]\<rparr>))"
    with reg3 title3 iRW show ?thesis
      by (cases "refuses lib (TightLayout fig3) (use_inf_as_na s)")
         (simp_all add: add_figure_def)
  qed
qed

text \<open>
  The layout of a grid of at least two rows and two columns when the run returns,
  for every library and every state with non-fatal filters: \<open>ceil(n / w)\<close> rows of
  \<open>w\<close> cells, the charts of the \<open>n\<close> numeric columns first, in row-major order, and
  hidden cells after them.
\<close>

lemma grid_layout:
  fixes T :: table and W :: nat
  defines "nums \<equiv> filter numeric (cols T)"
  defines "R \<equiv> nat ((int (length nums) + int W - 1) div int W)"
  assumes wf: "wf_table T" and nf: "non_fatal (filters s)"
    and w2: "2 \<le> W" and wn: "W < length nums"
    and returns: "fst (create_subplots lib T plot_type (int W) s) = Inr ()"
  shows "\<exists>fig. figures (snd (create_subplots lib T plot_type (int W) s))
                 = map (\<lambda>f. f\<lparr>shown := True\<rparr>) (figures s) @ [fig]
               \<and> regular R W (grid fig)
               \<and> concat (grid fig)
                 = map (chart_axes plot_type) nums
                   @ replicate (R * W - length nums) hidden_axes
               \<and> length nums \<le> R * W \<and> R * W < length nums + W"
proof -
  define pre where "pre = takeWhile (draws lib (use_inf_as_na s) plot_type) nums"
  note quiet = create_subplots_quiet [OF nf, of lib T plot_type "int W"]
  from create_subplots_run_quiet [where lib = lib and s = s and plot_type = plot_type,
      OF wf w2 wn [unfolded nums_def]]
  obtain fig1 fig3 where reg3: "regular R W (grid fig3)"
    and flat3: "pre = nums \<longrightarrow>
                concat (grid fig3)
                = map (chart_axes plot_type) nums @ replicate (R * W - length nums) hidden_axes"
    and bounds: "length nums \<le> R * W" "R * W < length nums + W"
    and outcome: "(pre \<noteq> nums
              \<and> (\<exists>e. create_subplots (quiet lib) T plot_type (int W) s
                       = (Inl e, add_figure fig1 s)))
            \<or> (pre = nums
              \<and> create_subplots (quiet lib) T plot_type (int W) s
                = (case refuses lib (TightLayout fig3) (use_inf_as_na s) of
                     Some e \<Rightarrow> (Inl e, add_figure fig3 s)
                   | None \<Rightarrow>
                       (Inr (), s\<lparr>figures := map (\<lambda>f. f\<lparr>shown := True\<rparr>) (figures s)
                                                 @ [fig3\<lparr>tight := True, shown := True\<rparr>]\<rparr>)))"
    unfolding nums_def R_def pre_def by blast
  from returns quiet have ok: "fst (create_subplots (quiet lib) T plot_type (int W) s) = Inr ()"
    by simp
  from outcome ok have full: "pre = nums"
    and run: "create_subplots (quiet lib) T plot_type (int W) s
                = (case refuses lib (TightLayout fig3) (use_inf_as_na s) of
                     Some e \<Rightarrow> (Inl e, add_figure fig3 s)
                   | None \<Rightarrow>
                       (Inr (), s\<lparr>figures := map (\<lambda>f. f\<lparr>shown := True\<rparr>) (figures s)
                                                 @ [fig3\<lparr>tight := True, shown := True\<rparr>]\<rparr>))"
    by auto
  from run ok have "figures (snd (create_subplots (quiet lib) T plot_type (int W) s))
                    = map (\<lambda>f. f\<lparr>shown := True\<rparr>) (figures s)
                      @ [fig3\<lparr>tight := True, shown := True\<rparr>]"
    by (cases "refuses lib (TightLayout fig3) (use_inf_as_na s)") simp_all
  with quiet reg3 flat3 full bounds show ?thesis
    by (intro exI [of _ "fig3\<lparr>tight := True, shown := True\<rparr>"]) simp
qed

lemma wf_survey: "wf_table survey"
  by (simp add: wf_table_def survey_def)

lemma numeric_survey:
  "filter numeric (cols survey)
   = [\<lparr>name = ''height'', dtypes = Float64, vals = [FloatVal 7 4, FloatVal 13 3]\<rparr>,
      \<lparr>name = ''total income'', dtypes = Int64, vals = [IntVal 52000, IntVal 61000]\<rparr>,
      \<lparr>name = ''AGE'', dtypes = Int64, vals = [IntVal 40, IntVal 35]\<rparr>]"
  by (simp add: survey_def)

lemma wf_gaps: "wf_table gaps"
  by (simp add: wf_table_def gaps_def)

lemma numeric_gaps: "filter numeric (cols gaps) = cols gaps"
  by (simp add: gaps_def)

lemma cell_title:
  assumes "wf_table T" and "non_fatal (filters s)"
    and "2 \<le> num_cols" and "num_cols < int (length (filter numeric (cols T)))"
    and "i < length (filter numeric (cols T))"
    and "\<forall>j \<le> i. draws lib (use_inf_as_na s) plot_type (filter numeric (cols T) ! j)"
  shows "length (figures (snd (create_subplots lib T plot_type num_cols s)))
           = Suc (length (figures s))
         \<and> title (grid (last (figures (snd (create_subplots lib T plot_type num_cols s))))
                    ! (i div nat num_cols) ! (i mod nat num_cols))
           = capitalize (name (filter numeric (cols T) ! i))"
proof -
  define W where "W = nat num_cols"
  define nums where "nums = filter numeric (cols T)"
  define R where "R = nat ((int (length nums) + int W - 1) div int W)"
  from assms(3) have w: "num_cols = int W" and w2: "2 \<le> W" by (simp_all add: W_def)
  from assms(4) w have wn: "W < length (filter numeric (cols T))" by simp
  from create_subplots_titles_quiet [OF assms(1) w2 wn assms(5,6)]
  obtain fig where
        last: "last (figures (snd (create_subplots (quiet lib) T plot_type (int W) s))) = fig"
    and len: "length (figures (snd (create_subplots (quiet lib) T plot_type (int W) s)))
              = Suc (length (figures s))"
    and reg: "regular R W (grid fig)" and i: "i < R * W"
    and titled: "title (concat (grid fig) ! i) = capitalize (name (nums ! i))"
    unfolding nums_def R_def by blast
  from w2 have w0: "0 < W" by simp
  from i reg have row: "i div W < length (grid fig)"
    by (simp add: regular_def less_mult_imp_div_less)
  from reg have all: "list_all (\<lambda>row. length row = W) (grid fig)" by (simp add: regular_def)
  from w0 have col: "i mod W < W" by simp
  have "grid fig ! (i div W) ! (i mod W) = concat (grid fig) ! i"
    using concat_nth [OF all row col] by simp
  with titled have "title (grid fig ! (i div W) ! (i mod W)) = capitalize (name (nums ! i))"
    by simp
  with create_subplots_quiet [OF assms(2), of lib T plot_type "int W"] last len
  show ?thesis by (simp add: w nums_def)
qed

text \<open>
  C7.  In a grid of at least two rows and two columns, the subplot of the \<open>i\<close>-th
  numeric column, at row \<open>i div num_cols\<close> and column \<open>i mod num_cols\<close> of the new
  figure, carries the column's name passed through \<open>str.capitalize()\<close>, which for an
  ASCII name is its first character in upper case and all others in lower case.  This
  holds as soon as the library accepts the chart calls of the columns up to the
  \<open>i\<close>-th, also when a later call raises.
\<close>

theorem subplot_title_is_capitalized_name:
  assumes "wf_table T" and "non_fatal (filters s)"
    and "2 \<le> num_cols" and "num_cols < int (length (filter numeric (cols T)))"
    and "i < length (filter numeric (cols T))"
    and "\<forall>j \<le> i. draws lib (use_inf_as_na s) plot_type (filter numeric (cols T) ! j)"
    and "is_ascii (name (filter numeric (cols T) ! i))"
  shows "length (figures (snd (create_subplots lib T plot_type num_cols s)))
           = Suc (length (figures s))
         \<and> title (grid (last (figures (snd (create_subplots lib T plot_type num_cols s))))
                    ! (i div nat num_cols) ! (i mod nat num_cols))
           = capitalize (name (filter numeric (cols T) ! i))"
  using assms(1-6) by (rule cell_title)

text \<open>
  A run in which the library refuses the second column: the box plot of the first
  column is titled, and the run raises the library's exception.
\<close>

lemma gaps_run_raises: "fst (create_subplots strict gaps ''boxplot'' 2 fresh) = Inl ValueError"
  by code_simp

lemma capitalize_a: "capitalize ''a'' = ''A''"
  by code_simp

theorem subplot_title_is_capitalized_name_witness:
  "wf_table gaps \<and> non_fatal (filters fresh) \<and> (2::int) \<le> 2
   \<and> 2 < int (length (filter numeric (cols gaps)))
   \<and> 0 < length (filter numeric (cols gaps))
   \<and> draws strict (use_inf_as_na fresh) ''boxplot'' (filter numeric (cols gaps) ! 0)
   \<and> is_ascii (name (filter numeric (cols gaps) ! 0))
   \<and> fst (create_subplots strict gaps ''boxplot'' 2 fresh) = Inl ValueError
   \<and> length (figures (snd (create_subplots strict gaps ''boxplot'' 2 fresh))) = 1
   \<and> title (grid (last (figures (snd (create_subplots strict gaps ''boxplot'' 2 fresh))))
              ! 0 ! 0)
     = ''A''"
proof -
  have h3: "(2::int) \<le> 2" by simp
  have h4: "2 < int (length (filter numeric (cols gaps)))" by (simp add: gaps_def)
  have h5: "0 < length (filter numeric (cols gaps))" by (simp add: gaps_def)
  have h0: "draws strict (use_inf_as_na fresh) ''boxplot'' (filter numeric (cols gaps) ! 0)"
    by (simp add: gaps_def draws_def chart_refusal_def strict_def is_null_def)
  then have h6: "\<forall>j \<le> 0. draws strict (use_inf_as_na fresh) ''boxplot''
                       (filter numeric (cols gaps) ! j)"
    by simp
  have h7: "is_ascii (name (filter numeric (cols gaps) ! 0))"
    by (simp add: gaps_def is_ascii_def)
  have first: "name (filter numeric (cols gaps) ! 0) = ''a''" by (simp add: gaps_def)
  have empty: "length (figures fresh) = 0" by (simp add: fresh_def)
  from subplot_title_is_capitalized_name [OF wf_gaps non_fatal_fresh h3 h4 h5 h6 h7]
  have "length (figures (snd (create_subplots strict gaps ''boxplot'' 2 fresh))) = 1
        \<and> title (grid (last (figures (snd (create_subplots strict gaps ''boxplot'' 2 fresh))))
                   ! 0 ! 0) = ''A''"
    unfolding first capitalize_a empty by simp
  with wf_gaps non_fatal_fresh h3 h4 h5 h0 h7 gaps_run_raises show ?thesis
    by (intro conjI) simp_all
qed

lemma capitalize_total_income: "capitalize ''total income'' = ''Total income''"
  by code_simp

lemma title_cased_total_income: "spec_title_cased ''total income'' = ''Total Income''"
  by code_simp

text \<open>
  The label of a column named in two words: \<open>capitalize\<close> leaves the second word in
  lower case, where title case has a capital.
\<close>

theorem capitalized_is_not_title_cased:
  "title (grid (last (figures (snd (create_subplots silent survey ''boxplot'' 2 fresh)))) ! 0 ! 1)
     = ''Total income''
   \<and> spec_title_cased ''total income'' = ''Total Income''"
proof -
  have h3: "(2::int) \<le> 2" by simp
  have h4: "2 < int (length (filter numeric (cols survey)))" by (simp add: numeric_survey)
  have h5: "1 < length (filter numeric (cols survey))" by (simp add: numeric_survey)
  have h6: "\<forall>j \<le> 1. draws silent (use_inf_as_na fresh) ''boxplot''
                       (filter numeric (cols survey) ! j)"
    by (simp add: draws_def chart_refusal_def silent_def)
  from cell_title [OF wf_survey non_fatal_fresh h3 h4 h5 h6]
  have "title (grid (last (figures (snd (create_subplots silent survey ''boxplot'' 2 fresh))))
               ! 0 ! 1) = capitalize ''total income''"
    by (simp add: numeric_survey)
  with capitalize_total_income title_cased_total_income show ?thesis by simp
qed

section \<open>The statistics report\<close>

lemma update_new_key:
  "k \<notin> fst ` set al \<Longrightarrow> AList.update k v al = al @ [(k, v)]"
  by (induction al) auto

lemma data_count_loop_distinct:
  "distinct (map fst acc @ ls) \<Longrightarrow>
   data_count_loop n ls acc = acc @ map (\<lambda>l. (l, [n])) ls"
proof (induction ls arbitrary: acc)
  case Nil
  then show ?case by simp
next
  case (Cons l ls)
  from Cons.prems have new: "l \<notin> fst ` set acc" by auto
  from Cons.prems have "distinct (map fst (acc @ [(l, [n])]) @ ls)" by auto
  from Cons.IH [OF this] new show ?case by (simp add: update_new_key)
qed

lemma data_count_wf:
  "distinct (map name (cols data)) \<Longrightarrow>
   data_count data = map (\<lambda>c. (name c, [nrows data])) (cols data)"
  by (simp add: data_count_def data_count_loop_distinct comp_def)

lemma map_of_labels:
  "distinct (map name cs) \<Longrightarrow> c \<in> set cs \<Longrightarrow>
   map_of (map (\<lambda>c. (name c, f c)) cs) (name c) = Some (f c)"
  by (induction cs) (auto simp: image_iff)

lemma info_frame_wf:
  assumes "distinct (map name (cols data))" and "cols data \<noteq> []"
  shows "info_frame inf_as_na data
         = Inr \<lparr>report_fields = [''entry_count'', ''data_type'', ''null_count''],
                report_rows = map (\<lambda>c. (name c, info_entries inf_as_na data c)) (cols data)\<rparr>"
  using assms
  by (simp add: info_frame_def setitem_def counts_frame_def data_count_wf data_type_def
      data_isnull_def comp_def map_of_labels null_count_def info_entries_def)

lemma drop_count_numeric:
  "drop_column \<lparr>report_fields = numeric_stats,
                report_rows = map (\<lambda>c. (name c, stat_entries numeric_stats b c)) cs\<rparr> ''count''
   = Inr \<lparr>report_fields = tl numeric_stats,
          report_rows = map (\<lambda>c. (name c, stat_entries (tl numeric_stats) b c)) cs\<rparr>"
  by (simp add: drop_column_def numeric_stats_def stat_entries_def comp_def)

lemma drop_count_object:
  "drop_column \<lparr>report_fields = object_stats,
                report_rows = map (\<lambda>c. (name c, stat_entries object_stats b c)) cs\<rparr> ''count''
   = Inr \<lparr>report_fields = tl object_stats,
          report_rows = map (\<lambda>c. (name c, stat_entries (tl object_stats) b c)) cs\<rparr>"
  by (simp add: drop_column_def object_stats_def stat_entries_def comp_def)

lemma data_describe_silent:
  assumes "cols data \<noteq> []"
  shows "data_describe silent data s
         = (Inr (if filter numeric (cols data) \<noteq> [] then
                   \<lparr>report_fields = tl numeric_stats,
                    report_rows = map (\<lambda>c. (name c, stat_entries (tl numeric_stats)
                                                        (use_inf_as_na s) c))
                                      (filter numeric (cols data))\<rparr>
                 else
                   \<lparr>report_fields = tl object_stats,
                    report_rows = map (\<lambda>c. (name c, stat_entries (tl object_stats)
                                                        (use_inf_as_na s) c))
                                      (cols data)\<rparr>), s)"
proof -
  have "describe_T b data
        = Inr (if filter numeric (cols data) \<noteq> [] then
                 \<lparr>report_fields = numeric_stats,
                  report_rows = map (\<lambda>c. (name c, stat_entries numeric_stats b c))
                                    (filter numeric (cols data))\<rparr>
               else
                 \<lparr>report_fields = object_stats,
                  report_rows = map (\<lambda>c. (name c, stat_entries object_stats b c)) (cols data)\<rparr>)"
    for b
    using assms by (simp add: describe_T_def stat_entries_def)
  then show ?thesis
    by (simp add: data_describe_def get_py_def py_defs drop_count_numeric drop_count_object)
qed

lemma rows_under_label:
  assumes "distinct (map name cs)" and "c \<in> set cs"
  shows "filter (\<lambda>(k, es). k = name c) (map (\<lambda>d. (name d, g d)) (filter p cs))
         = (if p c then [(name c, g c)] else [])"
proof -
  have "filter (\<lambda>(k, es). k = name c) (map (\<lambda>d. (name d, g d)) (filter p cs))
        = map (\<lambda>d. (name d, g d)) (filter p (filter (\<lambda>d. name d = name c) cs))"
    by (simp add: filter_map comp_def case_prod_unfold) (metis filter_filter conj_commute)
  also have "\<dots> = (if p c then [(name c, g c)] else [])"
    by (simp add: filter_label_unique [OF assms])
  finally show ?thesis .
qed

lemma concat_singletons: "concat (map (\<lambda>x. [f x]) xs) = map f xs"
  by (induction xs) simp_all

lemma merge_left_distinct:
  assumes "distinct (map name cs)"
  shows "merge_left \<lparr>report_fields = fs1, report_rows = map (\<lambda>c. (name c, f c)) cs\<rparr>
                    \<lparr>report_fields = fs2, report_rows = map (\<lambda>c. (name c, g c)) (filter p cs)\<rparr>
         = \<lparr>report_fields = fs1 @ fs2,
            report_rows = map (\<lambda>c. (name c, f c @ (if p c then g c
                                                    else replicate (length fs2) Null))) cs\<rparr>"
proof -
  have el: "(case filter (\<lambda>(k', es'). k' = name c) (map (\<lambda>c. (name c, g c)) (filter p cs)) of
               [] \<Rightarrow> [(name c, f c @ replicate n Null)]
             | m # ms \<Rightarrow> map (\<lambda>(k', es'). (name c, f c @ es')) (m # ms))
            = [(name c, f c @ (if p c then g c else replicate n Null))]"
    if "c \<in> set cs" for c n
    using that by (simp add: rows_under_label [OF assms])
  show ?thesis
    by (simp add: merge_left_def comp_def el concat_singletons cong: map_cong)
qed


lemma sim_stats_report: "sim (stats_report lib files csv) (stats_report lib' files csv)"
  unfolding stats_report_def data_input_def data_describe_def
  by (intro sim_intros sim_get | assumption)+

lemma stats_report_silent:
  assumes "non_fatal (filters s)"
  shows "fst (stats_report lib files csv s) = fst (stats_report silent files csv s)"
proof -
  from assms have "related s s" by (simp add: related_def same_results_def)
  with sim_stats_report [of lib files csv silent] show ?thesis
    unfolding sim_def by blast
qed

lemma stats_report_run:
  assumes "files csv = Inr T" and "distinct (map name (cols T))" and "cols T \<noteq> []"
  shows "info_frame (use_inf_as_na s) T
           = Inr \<lparr>report_fields = [''entry_count'', ''data_type'', ''null_count''],
                  report_rows = map (\<lambda>c. (name c, info_entries (use_inf_as_na s) T c)) (cols T)\<rparr>"
    and "fst (data_describe silent T s)
           = Inr (if filter numeric (cols T) \<noteq> [] then
                    \<lparr>report_fields = tl numeric_stats,
                     report_rows = map (\<lambda>c. (name c, stat_entries (tl numeric_stats)
                                                         (use_inf_as_na s) c))
                                       (filter numeric (cols T))\<rparr>
                  else
                    \<lparr>report_fields = tl object_stats,
                     report_rows = map (\<lambda>c. (name c, stat_entries (tl object_stats)
                                                         (use_inf_as_na s) c))
                                       (cols T)\<rparr>)"
    and "stats_report silent files csv s
           = (case (info_frame (use_inf_as_na s) T, fst (data_describe silent T s)) of
                (Inr df1, Inr df2) \<Rightarrow> (Inr (merge_left df1 df2), s)
              | _ \<Rightarrow> (Inl ValueError, s))"
proof -
  show info: "info_frame (use_inf_as_na s) T
           = Inr \<lparr>report_fields = [''entry_count'', ''data_type'', ''null_count''],
                  report_rows = map (\<lambda>c. (name c, info_entries (use_inf_as_na s) T c)) (cols T)\<rparr>"
    by (rule info_frame_wf [OF assms(2,3)])
  show "fst (data_describe silent T s)
           = Inr (if filter numeric (cols T) \<noteq> [] then
                    \<lparr>report_fields = tl numeric_stats,
                     report_rows = map (\<lambda>c. (name c, stat_entries (tl numeric_stats)
                                                         (use_inf_as_na s) c))
                                       (filter numeric (cols T))\<rparr>
                  else
                    \<lparr>report_fields = tl object_stats,
                     report_rows = map (\<lambda>c. (name c, stat_entries (tl object_stats)
                                                         (use_inf_as_na s) c))
                                       (cols T)\<rparr>)"
    by (simp add: data_describe_silent [OF assms(3)])
  show "stats_report silent files csv s
           = (case (info_frame (use_inf_as_na s) T, fst (data_describe silent T s)) of
                (Inr df1, Inr df2) \<Rightarrow> (Inr (merge_left df1 df2), s)
              | _ \<Rightarrow> (Inl ValueError, s))"
    by (simp add: stats_report_def data_input_def assms(1) get_py_def py_defs info
        data_describe_silent [OF assms(3)])
qed

lemma merged_report:
  assumes "distinct (map name (cols T))"
  shows "merge_left
           \<lparr>report_fields = [''entry_count'', ''data_type'', ''null_count''],
            report_rows = map (\<lambda>c. (name c, info_entries b T c)) (cols T)\<rparr>
           (if filter numeric (cols T) \<noteq> [] then
              \<lparr>report_fields = tl numeric_stats,
               report_rows = map (\<lambda>c. (name c, stat_entries (tl numeric_stats) b c))
                                 (filter numeric (cols T))\<rparr>
            else
              \<lparr>report_fields = tl object_stats,
               report_rows = map (\<lambda>c. (name c, stat_entries (tl object_stats) b c)) (cols T)\<rparr>)
         = (if filter numeric (cols T) \<noteq> [] then
              \<lparr>report_fields = [''entry_count'', ''data_type'', ''null_count'']
                                 @ tl numeric_stats,
               report_rows = map (\<lambda>c. (name c, info_entries b T c
                                           @ (if numeric c then stat_entries (tl numeric_stats) b c
                                              else replicate (length (tl numeric_stats)) Null)))
                                 (cols T)\<rparr>
            else
              \<lparr>report_fields = [''entry_count'', ''data_type'', ''null_count'']
                                 @ tl object_stats,
               report_rows = map (\<lambda>c. (name c, info_entries b T c
                                           @ stat_entries (tl object_stats) b c))
                                 (cols T)\<rparr>)"
proof (cases "filter numeric (cols T) \<noteq> []")
  case True
  then show ?thesis
    using merge_left_distinct [OF assms, of "[''entry_count'', ''data_type'', ''null_count'']"
        "info_entries b T" "tl numeric_stats" "stat_entries (tl numeric_stats) b" numeric]
    by simp
next
  case False
  then show ?thesis
    using merge_left_distinct [OF assms, of "[''entry_count'', ''data_type'', ''null_count'']"
        "info_entries b T" "tl object_stats" "stat_entries (tl object_stats) b" "\<lambda>c. True"]
    by simp
qed

lemma report_of_loaded_table:
  assumes "files csv = Inr T" and "wf_table T" and "cols T \<noteq> []"
    and "non_fatal (filters s)"
  shows "fst (stats_report lib files csv s)
         = Inr (if filter numeric (cols T) \<noteq> [] then
                  \<lparr>report_fields = [''entry_count'', ''data_type'', ''null_count'']
                                     @ tl numeric_stats,
                   report_rows = map (\<lambda>c. (name c, info_entries (use_inf_as_na s) T c
                          @ (if numeric c then stat_entries (tl numeric_stats) (use_inf_as_na s) c
                             else replicate (length (tl numeric_stats)) Null)))
                        (cols T)\<rparr>
                else
                  \<lparr>report_fields = [''entry_count'', ''data_type'', ''null_count'']
                                     @ tl object_stats,
                   report_rows = map (\<lambda>c. (name c, info_entries (use_inf_as_na s) T c
                          @ stat_entries (tl object_stats) (use_inf_as_na s) c))
                        (cols T)\<rparr>)"
proof -
  from assms(2) have d: "distinct (map name (cols T))" by (simp add: wf_table_def)
  note run = stats_report_run [where files = files and csv = csv and s = s,
      OF assms(1) d assms(3)]
  have "stats_report silent files csv s
        = (Inr (merge_left
             \<lparr>report_fields = [''entry_count'', ''data_type'', ''null_count''],
              report_rows = map (\<lambda>c. (name c, info_entries (use_inf_as_na s) T c)) (cols T)\<rparr>
             (if filter numeric (cols T) \<noteq> [] then
                \<lparr>report_fields = tl numeric_stats,
                 report_rows = map (\<lambda>c. (name c, stat_entries (tl numeric_stats)
                                                     (use_inf_as_na s) c))
                                   (filter numeric (cols T))\<rparr>
              else
                \<lparr>report_fields = tl object_stats,
                 report_rows = map (\<lambda>c. (name c, stat_entries (tl object_stats)
                                                     (use_inf_as_na s) c))
                                   (cols T)\<rparr>)), s)"
    unfolding run(3) by (simp only: run(1,2) prod.case sum.case)
  with stats_report_silent [OF assms(4), of lib files csv]
    merged_report [OF d, of "use_inf_as_na s"]
  show ?thesis by simp
qed

lemma cell_of_row:
  assumes "distinct (map name cs)" and "c \<in> set cs"
  shows "cell_at \<lparr>report_fields = fs, report_rows = map (\<lambda>c. (name c, row c)) cs\<rparr> (name c) f
         = map_of (zip fs (row c)) f"
  by (simp add: cell_at_def map_of_labels [OF assms])

text \<open>
  C5.  The report of a loaded table has one row for every column of the table, in
  the table's column order, and the entry under \<open>entry_count\<close> is the row count of
  the table in every row, whatever the column holds (missing values included).
\<close>

theorem stats_report_rows_and_entry_counts:
  assumes "files csv = Inr T" and "wf_table T" and "cols T \<noteq> []"
    and "non_fatal (filters s)"
  shows "\<exists>report. fst (stats_report lib files csv s) = Inr report
           \<and> map fst (report_rows report) = map name (cols T)
           \<and> (\<forall>c \<in> set (cols T).
                cell_at report (name c) ''entry_count'' = Some (Count (nrows T)))"
proof -
  from assms(2) have d: "distinct (map name (cols T))" by (simp add: wf_table_def)
  show ?thesis
  proof (cases "filter numeric (cols T) \<noteq> []")
    case True
    with report_of_loaded_table [where files = files and csv = csv and lib = lib, OF assms]
    show ?thesis
      by (simp add: comp_def cell_of_row [OF d] info_entries_def numeric_stats_def)
  next
    case False
    with report_of_loaded_table [where files = files and csv = csv and lib = lib, OF assms]
    show ?thesis
      by (simp add: comp_def cell_of_row [OF d] info_entries_def object_stats_def)
  qed
qed

lemma wf_sparse: "wf_table sparse"
  by (simp add: wf_table_def sparse_def)

theorem stats_report_rows_and_entry_counts_witness:
  "disk ''sparse.csv'' = Inr sparse \<and> wf_table sparse \<and> cols sparse \<noteq> []
   \<and> non_fatal (filters fresh)
   \<and> (\<exists>report. fst (stats_report noisy disk ''sparse.csv'' fresh) = Inr report
          \<and> map fst (report_rows report) = [''id'', ''blank'', ''tag'']
          \<and> cell_at report ''blank'' ''entry_count'' = Some (Count 2))"
proof -
  have loaded: "disk ''sparse.csv'' = Inr sparse" by (simp add: disk_def)
  have nonempty: "cols sparse \<noteq> []" by (simp add: sparse_def)
  from stats_report_rows_and_entry_counts [where files = disk and csv = "''sparse.csv''"
      and lib = noisy, OF loaded wf_sparse nonempty non_fatal_fresh]
  obtain report where "fst (stats_report noisy disk ''sparse.csv'' fresh) = Inr report"
    and "map fst (report_rows report) = map name (cols sparse)"
    and "\<forall>c \<in> set (cols sparse).
           cell_at report (name c) ''entry_count'' = Some (Count (nrows sparse))"
    by blast
  then have r1: "fst (stats_report noisy disk ''sparse.csv'' fresh) = Inr report"
    and r2: "map fst (report_rows report) = [''id'', ''blank'', ''tag'']"
    and r3: "cell_at report ''blank'' ''entry_count'' = Some (Count 2)"
    by (simp_all add: sparse_def)
  show ?thesis
    by (intro conjI exI [of _ report])
       (fact loaded wf_sparse nonempty non_fatal_fresh r1 r2 r3)+
qed

lemma data_describe_any:
  assumes "non_fatal (filters s)"
  shows "fst (data_describe lib data s) = fst (data_describe silent data s)"
proof -
  have "sim (data_describe lib data) (data_describe silent data)"
    unfolding data_describe_def by (intro sim_intros sim_get | assumption)+
  moreover from assms have "related s s" by (simp add: related_def same_results_def)
  ultimately show ?thesis unfolding sim_def by blast
qed

text \<open>
  C6.  The report is the left join, on the column name, of the table of counts,
  dtypes and null counts with \<open>data.describe()\<close>, transposed and without its \<open>count\<close>
  field; every column of the table appears exactly once.  When the table has a
  numeric column, the second table describes the numeric columns, and the fields
  \<open>mean\<close>, \<open>std\<close>, \<open>min\<close>, \<open>25%\<close>, \<open>50%\<close>, \<open>75%\<close> and \<open>max\<close> are missing values in
  the row of every other column.  When it has none, pandas describes all columns
  and the report has the fields \<open>unique\<close>, \<open>top\<close> and \<open>freq\<close> and none of the
  numeric ones.
\<close>

theorem stats_report_is_left_join:
  assumes "files csv = Inr T" and "wf_table T" and "cols T \<noteq> []"
    and "non_fatal (filters s)"
  shows "\<exists>df1 df2.
           info_frame (use_inf_as_na s) T = Inr df1
           \<and> fst (data_describe lib T s) = Inr df2
           \<and> fst (stats_report lib files csv s) = Inr (merge_left df1 df2)
           \<and> map fst (report_rows df1) = map name (cols T)
           \<and> map fst (report_rows df2)
             = map name (if filter numeric (cols T) = [] then cols T
                         else filter numeric (cols T))
           \<and> report_fields (merge_left df1 df2)
             = [''entry_count'', ''data_type'', ''null_count'']
               @ (if filter numeric (cols T) = [] then tl object_stats else tl numeric_stats)
           \<and> map fst (report_rows (merge_left df1 df2)) = map name (cols T)
           \<and> distinct (map fst (report_rows (merge_left df1 df2)))
           \<and> (\<forall>c \<in> set (cols T). \<forall>f \<in> set (tl numeric_stats). \<not> numeric c \<longrightarrow>
                cell_at (merge_left df1 df2) (name c) f
                = (if filter numeric (cols T) = [] then None else Some Null))"
proof -
  from assms(2) have d: "distinct (map name (cols T))" by (simp add: wf_table_def)
  note run = stats_report_run [where files = files and csv = csv and s = s,
      OF assms(1) d assms(3)]
  note whole = report_of_loaded_table [where files = files and csv = csv and lib = lib,
      OF assms]
  let ?df1 = "\<lparr>report_fields = [''entry_count'', ''data_type'', ''null_count''],
               report_rows = map (\<lambda>c. (name c, info_entries (use_inf_as_na s) T c)) (cols T)\<rparr>"
  let ?df2 = "if filter numeric (cols T) \<noteq> [] then
                \<lparr>report_fields = tl numeric_stats,
                 report_rows = map (\<lambda>c. (name c, stat_entries (tl numeric_stats)
                                                     (use_inf_as_na s) c))
                                   (filter numeric (cols T))\<rparr>
              else
                \<lparr>report_fields = tl object_stats,
                 report_rows = map (\<lambda>c. (name c, stat_entries (tl object_stats)
                                                     (use_inf_as_na s) c))
                                   (cols T)\<rparr>"
  have describe: "fst (data_describe lib T s) = Inr ?df2"
    using data_describe_any [OF assms(4), of lib T] run(2) by simp
  have merged: "fst (stats_report lib files csv s) = Inr (merge_left ?df1 ?df2)"
    using whole merged_report [OF d, of "use_inf_as_na s"] by simp
  have rows1: "map fst (report_rows ?df1) = map name (cols T)"
    by (simp add: comp_def)
  have rows2: "map fst (report_rows ?df2)
               = map name (if filter numeric (cols T) = [] then cols T
                           else filter numeric (cols T))"
    by (simp add: comp_def)
  have fields: "report_fields (merge_left ?df1 ?df2)
                = [''entry_count'', ''data_type'', ''null_count'']
                  @ (if filter numeric (cols T) = [] then tl object_stats else tl numeric_stats)"
    by (simp add: merge_left_def)
  have rows: "map fst (report_rows (merge_left ?df1 ?df2)) = map name (cols T)"
    unfolding merged_report [OF d] by (simp add: comp_def)
  have cells: "cell_at (merge_left ?df1 ?df2) (name c) f
               = (if filter numeric (cols T) = [] then None else Some Null)"
    if "c \<in> set (cols T)" and "f \<in> set (tl numeric_stats)" and "\<not> numeric c" for c f
    unfolding merged_report [OF d]
    using that(2,3)
    by (auto simp: cell_of_row [OF d that(1)] info_entries_def numeric_stats_def
        object_stats_def stat_entries_def)
  have once: "distinct (map fst (report_rows (merge_left ?df1 ?df2)))"
    using d rows by simp
  show ?thesis
  proof (rule exI [of _ ?df1], rule exI [of _ ?df2], intro conjI ballI impI)
    fix c f
    assume "c \<in> set (cols T)" and "f \<in> set (tl numeric_stats)" and "\<not> numeric c"
    then show "cell_at (merge_left ?df1 ?df2) (name c) f
               = (if filter numeric (cols T) = [] then None else Some Null)"
      by (rule cells)
  qed (fact run(1) describe merged rows1 rows2 fields rows once)+
qed

theorem stats_report_is_left_join_witness:
  "disk ''people.csv'' = Inr people \<and> wf_table people \<and> cols people \<noteq> []
   \<and> non_fatal (filters fresh)
   \<and> (\<exists>df1 df2. info_frame (use_inf_as_na fresh) people = Inr df1
          \<and> fst (data_describe noisy people fresh) = Inr df2
          \<and> fst (stats_report noisy disk ''people.csv'' fresh) = Inr (merge_left df1 df2)
          \<and> map fst (report_rows (merge_left df1 df2)) = [''age'', ''income'', ''city'']
          \<and> cell_at (merge_left df1 df2) ''city'' ''mean'' = Some Null)"
proof -
  have loaded: "disk ''people.csv'' = Inr people" by (simp add: disk_def)
  have nonempty: "cols people \<noteq> []" by (simp add: people_def)
  from stats_report_is_left_join [where files = disk and csv = "''people.csv''"
      and lib = noisy, OF loaded wf_people nonempty non_fatal_fresh]
  obtain df1 df2 where r1: "info_frame (use_inf_as_na fresh) people = Inr df1"
    and r2: "fst (data_describe noisy people fresh) = Inr df2"
    and r3: "fst (stats_report noisy disk ''people.csv'' fresh) = Inr (merge_left df1 df2)"
    and names: "map fst (report_rows (merge_left df1 df2)) = map name (cols people)"
    and nulls: "\<forall>c \<in> set (cols people). \<forall>f \<in> set (tl numeric_stats). \<not> numeric c \<longrightarrow>
                  cell_at (merge_left df1 df2) (name c) f
                  = (if filter numeric (cols people) = [] then None else Some Null)"
    by blast
  from names have r4: "map fst (report_rows (merge_left df1 df2)) = [''age'', ''income'', ''city'']"
    by (simp add: people_def)
  from nulls have r5: "cell_at (merge_left df1 df2) ''city'' ''mean'' = Some Null"
    by (simp add: people_def numeric_stats_def)
  have "\<exists>df1 df2. info_frame (use_inf_as_na fresh) people = Inr df1
          \<and> fst (data_describe noisy people fresh) = Inr df2
          \<and> fst (stats_report noisy disk ''people.csv'' fresh) = Inr (merge_left df1 df2)
          \<and> map fst (report_rows (merge_left df1 df2)) = [''age'', ''income'', ''city'']
          \<and> cell_at (merge_left df1 df2) ''city'' ''mean'' = Some Null"
    by (rule exI [of _ df1], rule exI [of _ df2], intro conjI) (fact r1 r2 r3 r4 r5)+
  with loaded wf_people nonempty non_fatal_fresh show ?thesis
    by (intro conjI)
qed

text \<open>
  A file whose only column holds text.  \<open>describe()\<close> finds no numeric column and
  describes every column instead, so the second table of the join is not a table of
  numeric statistics: the report has the fields \<open>unique\<close>, \<open>top\<close> and \<open>freq\<close>, with
  values in the row of the text column, and none of \<open>mean\<close>, ..., \<open>max\<close>.
\<close>

theorem report_without_numeric_columns:
  "fst (stats_report silent disk ''remarks.csv'' fresh)
   = Inr \<lparr>report_fields = [''entry_count'', ''data_type'', ''null_count'',
                            ''unique'', ''top'', ''freq''],
          report_rows =
            [(''comment'', [Count 2, Kind Object, Count 1,
                            Stat ''unique'' False [TextVal ''ok'', NA],
                            Stat ''top'' False [TextVal ''ok'', NA],
                            Stat ''freq'' False [TextVal ''ok'', NA]])]\<rparr>"
proof -
  have loaded: "disk ''remarks.csv'' = Inr remarks" by (simp add: disk_def)
  have nonempty: "cols remarks \<noteq> []" by (simp add: remarks_def)
  from report_of_loaded_table [where files = disk and csv = "''remarks.csv''"
      and lib = silent, OF loaded wf_remarks nonempty non_fatal_fresh]
  show ?thesis
    by (simp add: remarks_def fresh_def info_entries_def stat_entries_def object_stats_def
        null_count_def is_null_def)
qed

end
